theory Spec2Isabelle
  imports Complex_Main "HOL-Library.Sublist"
begin

section \<open>JavaScript values\<close>

text \<open>
  The drawing board of \<^verbatim>\<open>src/main.js\<close> is a JavaScript class. Its methods test
  their arguments with \<^verbatim>\<open>typeof\<close>, \<^verbatim>\<open>isNaN\<close>, truthiness and the relational
  operators, so the model carries JavaScript values and not only numbers.

  A number is a finite double, \<^verbatim>\<open>NaN\<close> or one of the two infinities. A finite
  double is represented by the rational it denotes, and every arithmetic operation
  rounds its exact result to the nearest double, ties to even (see
  \<open>round_double\<close>). The two zeros are one value: the program never divides by a
  number it has computed, and \<^verbatim>\<open>===\<close>, \<^verbatim>\<open><\<close> and \<^verbatim>\<open>includes\<close> do not tell them
  apart.

  What the model takes from outside the file is gathered in the record \<open>engine\<close>
  below and in the section on the canvas; the callbacks of the user are taken to
  return normally, without calling the board and without changing the array they
  are given.
\<close>

datatype jsnum = Fin rat | NaN | PInf | NInf

datatype handler_kind = HStart | HMove | HEnd | HLeave | HCancel

text \<open>
  A function value is either one of the five handlers that \<^verbatim>\<open>_init\<close> creates with
  \<^verbatim>\<open>bind\<close> (a new function object at every initialisation, hence the generation
  number) or a function of the user, identified by a number.
\<close>

datatype jsfun = Bound handler_kind nat | UserFn nat

datatype jsval =
    JUndefined
  | JNull
  | JBool bool
  | JNum jsnum
  | JStr string
  | JFun jsfun
  | JObj nat
  | JSym nat
  | JBigInt int

definition typeof :: "jsval \<Rightarrow> string" where
  "typeof v = (case v of
      JUndefined \<Rightarrow> ''undefined''
    | JNull \<Rightarrow> ''object''
    | JBool b \<Rightarrow> ''boolean''
    | JNum n \<Rightarrow> ''number''
    | JStr s \<Rightarrow> ''string''
    | JFun f \<Rightarrow> ''function''
    | JObj i \<Rightarrow> ''object''
    | JSym i \<Rightarrow> ''symbol''
    | JBigInt b \<Rightarrow> ''bigint'')"

text \<open>Truthiness: what \<^verbatim>\<open>if (v)\<close>, \<^verbatim>\<open>!v\<close>, \<^verbatim>\<open>&&\<close> and \<^verbatim>\<open>||\<close> test.\<close>

definition truthy :: "jsval \<Rightarrow> bool" where
  "truthy v = (case v of
      JUndefined \<Rightarrow> False
    | JNull \<Rightarrow> False
    | JBool b \<Rightarrow> b
    | JNum n \<Rightarrow> n \<noteq> Fin 0 \<and> n \<noteq> NaN
    | JStr s \<Rightarrow> s \<noteq> []
    | JFun f \<Rightarrow> True
    | JObj i \<Rightarrow> True
    | JSym i \<Rightarrow> True
    | JBigInt b \<Rightarrow> b \<noteq> 0)"

text \<open>\<^verbatim>\<open>a || b\<close> as a value.\<close>

definition js_or :: "jsval \<Rightarrow> jsval \<Rightarrow> jsval" where
  "js_or a b = (if truthy a then a else b)"

text \<open>\<^verbatim>\<open>v == null\<close>: true of \<^verbatim>\<open>null\<close> and \<^verbatim>\<open>undefined\<close> only.\<close>

definition eq_null :: "jsval \<Rightarrow> bool" where
  "eq_null v = (v = JUndefined \<or> v = JNull)"

text \<open>
  \<^verbatim>\<open>a === b\<close>: the same type and the same value, except that \<^verbatim>\<open>NaN\<close> differs
  from itself. \<^verbatim>\<open>Array.prototype.includes\<close> compares with SameValueZero, which
  differs from \<^verbatim>\<open>===\<close> only at \<^verbatim>\<open>NaN\<close>.
\<close>

definition strict_eq :: "jsval \<Rightarrow> jsval \<Rightarrow> bool" where
  "strict_eq a b = (a = b \<and> a \<noteq> JNum NaN)"

definition arr_includes :: "jsval list \<Rightarrow> jsval \<Rightarrow> bool" where
  "arr_includes xs v = (v \<in> set xs)"

text \<open>
  The exceptions that the program can raise or let through: the \<^verbatim>\<open>TypeError\<close> of
  the language, the exceptions of the canvas, and \<open>Thrown\<close> for what the code of
  the user throws where the engine calls it to convert an object.
\<close>

datatype exn =
    TypeError
  | IndexSizeError
  | InvalidStateError
  | SecurityError
  | RangeError
  | Thrown nat

text \<open>
  What belongs to the engine and to the objects of the user. The number that a
  string denotes follows the grammar of numeric literals; the conversion of an
  object or a function calls its \<^verbatim>\<open>valueOf\<close> and \<^verbatim>\<open>toString\<close>, which may throw, as
  does its conversion to a string; whether an object is an image that
  \<^verbatim>\<open>drawImage\<close> accepts (\<open>None\<close> if it is not), and whether the image is sound,
  taints the canvas (an image of another origin) or is broken, depends on the
  object; the engine may refuse to allocate pixel data of a given size; and the
  integer arguments of \<^verbatim>\<open>getImageData\<close> are range-checked in the current
  standard and wrapped in engines that follow the earlier one. Every
  theorem below holds for every engine. An object is taken to convert the same
  way each time.
\<close>

datatype image_kind = Sound | Tainting | Broken

record engine =
  stringToNumber :: "string \<Rightarrow> jsnum"
  objectToNumber :: "jsval \<Rightarrow> exn + jsnum"
  objectToString :: "jsval \<Rightarrow> exn option"
  imageSource :: "jsval \<Rightarrow> image_kind option"
  allocates :: "nat \<Rightarrow> nat \<Rightarrow> bool"
  enforcesRange :: bool

text \<open>
  \<^verbatim>\<open>ToNumber\<close>: a symbol and a BigInt make it throw a \<^verbatim>\<open>TypeError\<close>.
\<close>

definition ToNumber :: "engine \<Rightarrow> jsval \<Rightarrow> exn + jsnum" where
  "ToNumber tn v = (case v of
      JUndefined \<Rightarrow> Inr NaN
    | JNull \<Rightarrow> Inr (Fin 0)
    | JBool b \<Rightarrow> Inr (if b then Fin 1 else Fin 0)
    | JNum n \<Rightarrow> Inr n
    | JStr s \<Rightarrow> Inr (stringToNumber tn s)
    | JFun f \<Rightarrow> objectToNumber tn v
    | JObj i \<Rightarrow> objectToNumber tn v
    | JSym i \<Rightarrow> Inl TypeError
    | JBigInt b \<Rightarrow> Inl TypeError)"

text \<open>
  The conversion of a value to a string, as far as it can fail: a symbol throws a
  \<^verbatim>\<open>TypeError\<close> and an object may throw.
\<close>

definition ToString_fails :: "engine \<Rightarrow> jsval \<Rightarrow> exn option" where
  "ToString_fails tn v = (case v of
      JSym i \<Rightarrow> Some TypeError
    | JObj i \<Rightarrow> objectToString tn v
    | JFun f \<Rightarrow> objectToString tn v
    | _ \<Rightarrow> None)"

text \<open>The number that a value of type \<^verbatim>\<open>number\<close> is.\<close>

definition numberOf :: "jsval \<Rightarrow> jsnum" where
  "numberOf v = (case v of JNum n \<Rightarrow> n | _ \<Rightarrow> NaN)"

text \<open>
  An engine under which no string and no object is numeric, no conversion throws,
  every object is an image that does not taint, every allocation succeeds, and
  integer arguments are range-checked.
\<close>

definition nonNumeric :: engine where
  "nonNumeric =
     \<lparr> stringToNumber = (\<lambda>s. NaN),
       objectToNumber = (\<lambda>v. Inr NaN),
       objectToString = (\<lambda>v. None),
       imageSource = (\<lambda>v. Some Sound),
       allocates = (\<lambda>w h. True),
       enforcesRange = True \<rparr>"

definition isNaN :: "jsnum \<Rightarrow> bool" where
  "isNaN n = (n = NaN)"

definition isFinite :: "jsnum \<Rightarrow> bool" where
  "isFinite n = (case n of Fin q \<Rightarrow> True | _ \<Rightarrow> False)"

subsection \<open>Rounding to a double\<close>

text \<open>
  \<open>bitlen n\<close> is the number of binary digits of \<open>n\<close>, and \<open>binexp x\<close> the binary
  exponent of a rational \<open>x\<close> that is not 0: the integer \<open>e\<close> with
  \<open>2 ^ e \<le> \<bar>x\<bar> < 2 ^ (e + 1)\<close>. A double has 53 significant binary digits: the
  doubles with exponent \<open>e\<close> are the multiples of \<open>2 ^ (e - 52)\<close>, the exponent is
  at least -1022 (below, the doubles are the multiples of \<open>2 ^ - 1074\<close>), and a
  result that rounds to \<open>2 ^ 1024\<close> or more is an infinity.
\<close>

fun bitlen :: "nat \<Rightarrow> nat" where
  "bitlen n = (if n = 0 then 0 else Suc (bitlen (n div 2)))"

declare bitlen.simps [simp del]

definition pow2 :: "int \<Rightarrow> rat" where
  "pow2 k = (if 0 \<le> k then 2 ^ nat k else 1 / 2 ^ nat (- k))"

definition binexp :: "rat \<Rightarrow> int" where
  "binexp x = (if 1 \<le> \<bar>x\<bar> then int (bitlen (nat \<lfloor>\<bar>x\<bar>\<rfloor>)) - 1
               else - int (bitlen (nat (\<lceil>1 / \<bar>x\<bar>\<rceil> - 1))))"

text \<open>The nearest integer, a tie going to the even one.\<close>

definition round_even :: "rat \<Rightarrow> int" where
  "round_even q =
     (if q - of_int \<lfloor>q\<rfloor> < 1 / 2 then \<lfloor>q\<rfloor>
      else if 1 / 2 < q - of_int \<lfloor>q\<rfloor> then \<lfloor>q\<rfloor> + 1
      else if even \<lfloor>q\<rfloor> then \<lfloor>q\<rfloor> else \<lfloor>q\<rfloor> + 1)"

definition round_double :: "rat \<Rightarrow> jsnum" where
  "round_double x =
     (if x = 0 then Fin 0
      else
        let e = max (binexp x) (- 1022);
            m = round_even (\<bar>x\<bar> / pow2 (e - 52))
        in if 1024 \<le> e \<or> (e = 1023 \<and> m = 2 ^ 53)
           then (if 0 < x then PInf else NInf)
           else Fin (sgn x * of_int m * pow2 (e - 52)))"

subsection \<open>Arithmetic and comparison of numbers\<close>

fun js_lt :: "jsnum \<Rightarrow> jsnum \<Rightarrow> bool" where
  "js_lt NaN b = False"
| "js_lt a NaN = False"
| "js_lt (Fin a) (Fin b) = (a < b)"
| "js_lt a NInf = False"
| "js_lt NInf b = True"
| "js_lt PInf b = False"
| "js_lt a PInf = True"

definition js_le :: "jsnum \<Rightarrow> jsnum \<Rightarrow> bool" where
  "js_le a b = (a \<noteq> NaN \<and> b \<noteq> NaN \<and> (js_lt a b \<or> a = b))"

definition js_gt :: "jsnum \<Rightarrow> jsnum \<Rightarrow> bool" where
  "js_gt a b = js_lt b a"

definition js_ge :: "jsnum \<Rightarrow> jsnum \<Rightarrow> bool" where
  "js_ge a b = js_le b a"

text \<open>
  \<^verbatim>\<open>v <= n\<close> for a value \<open>v\<close> and a number \<open>n\<close>: a BigInt is compared by its
  mathematical value, every other value is converted to a number first.
\<close>

definition le_number :: "engine \<Rightarrow> jsval \<Rightarrow> jsnum \<Rightarrow> exn + bool" where
  "le_number tn v n =
     (case v of
        JBigInt b \<Rightarrow> Inr (js_le (Fin (of_int b)) n)
      | _ \<Rightarrow> (case ToNumber tn v of Inl e \<Rightarrow> Inl e | Inr a \<Rightarrow> Inr (js_le a n)))"

fun js_add :: "jsnum \<Rightarrow> jsnum \<Rightarrow> jsnum" where
  "js_add NaN b = NaN"
| "js_add a NaN = NaN"
| "js_add (Fin a) (Fin b) = round_double (a + b)"
| "js_add PInf NInf = NaN"
| "js_add NInf PInf = NaN"
| "js_add PInf b = PInf"
| "js_add NInf b = NInf"
| "js_add a PInf = PInf"
| "js_add a NInf = NInf"

fun js_neg :: "jsnum \<Rightarrow> jsnum" where
  "js_neg (Fin a) = Fin (- a)"
| "js_neg NaN = NaN"
| "js_neg PInf = NInf"
| "js_neg NInf = PInf"

definition js_sub :: "jsnum \<Rightarrow> jsnum \<Rightarrow> jsnum" where
  "js_sub a b = js_add a (js_neg b)"

fun sign_of :: "jsnum \<Rightarrow> int" where
  "sign_of (Fin a) = (if a < 0 then - 1 else if a = 0 then 0 else 1)"
| "sign_of NaN = 0"
| "sign_of PInf = 1"
| "sign_of NInf = - 1"

definition signed_inf :: "int \<Rightarrow> jsnum" where
  "signed_inf s = (if s = 0 then NaN else if 0 < s then PInf else NInf)"

fun js_mul :: "jsnum \<Rightarrow> jsnum \<Rightarrow> jsnum" where
  "js_mul NaN b = NaN"
| "js_mul a NaN = NaN"
| "js_mul (Fin a) (Fin b) = round_double (a * b)"
| "js_mul a b = signed_inf (sign_of a * sign_of b)"

text \<open>
  Division. A finite quotient by zero is an infinity whose sign the sign of the zero
  decides; the model has one zero and takes it as positive. The program divides by
  the literals 2 and 90 only.
\<close>

fun js_div :: "jsnum \<Rightarrow> jsnum \<Rightarrow> jsnum" where
  "js_div NaN b = NaN"
| "js_div a NaN = NaN"
| "js_div (Fin a) (Fin b) =
     (if b = 0 then signed_inf (sign_of (Fin a)) else round_double (a / b))"
| "js_div (Fin a) b = Fin 0"
| "js_div a (Fin b) = signed_inf (sign_of a * (if b < 0 then - 1 else 1))"
| "js_div a b = NaN"

text \<open>
  The remainder \<^verbatim>\<open>a % b\<close> truncates the quotient towards zero, so its sign is the
  sign of the dividend; the exact remainder of two doubles is a double.
\<close>

definition truncq :: "rat \<Rightarrow> int" where
  "truncq q = (if 0 \<le> q then \<lfloor>q\<rfloor> else \<lceil>q\<rceil>)"

definition frem :: "rat \<Rightarrow> rat \<Rightarrow> rat" where
  "frem a b = a - b * of_int (truncq (a / b))"

fun js_rem :: "jsnum \<Rightarrow> jsnum \<Rightarrow> jsnum" where
  "js_rem NaN b = NaN"
| "js_rem a NaN = NaN"
| "js_rem (Fin a) (Fin b) = (if b = 0 then NaN else round_double (frem a b))"
| "js_rem (Fin a) b = Fin a"
| "js_rem a b = NaN"

fun Math_floor :: "jsnum \<Rightarrow> jsnum" where
  "Math_floor (Fin a) = round_double (of_int \<lfloor>a\<rfloor>)"
| "Math_floor n = n"

fun Math_ceil :: "jsnum \<Rightarrow> jsnum" where
  "Math_ceil (Fin a) = round_double (of_int \<lceil>a\<rceil>)"
| "Math_ceil n = n"

fun Math_abs :: "jsnum \<Rightarrow> jsnum" where
  "Math_abs (Fin a) = Fin \<bar>a\<bar>"
| "Math_abs NaN = NaN"
| "Math_abs PInf = PInf"
| "Math_abs NInf = PInf"

section \<open>The two normalising helpers\<close>

text \<open>
  A method whose JavaScript name starts with an underscore is written with the
  prefix \<open>p_\<close>. The methods and their lines in \<^verbatim>\<open>src/main.js\<close>:
  \<^item> \<open>p_init\<close>: \<^verbatim>\<open>_init\<close>, lines 25 to 185; \<open>new_DrawingBoard\<close>: the constructor,
    lines 14 to 18;
  \<^item> \<open>p_bindCurModeEvents\<close>, \<open>p_bindEvent\<close>, \<open>p_getPointerType\<close>,
    \<open>p_getEventItems\<close>, \<open>p_cleanCurModeEvents\<close>, \<open>p_cleanEvent\<close>: lines 191 to 279;
  \<^item> \<open>p_handlePointerStart\<close>, \<open>p_handlePointerMove\<close>, \<open>p_handlePointerEnd\<close>,
    \<open>p_handlePointerLeave\<close>, \<open>p_handlePointerCancel\<close>: lines 285 to 366;
  \<^item> \<open>p_drawCircle\<close>, \<open>p_drawLine\<close>, \<open>p_getPointOffset\<close>: lines 375 to 435;
  \<^item> \<open>p_getLawfulMaxRevokeSteps\<close>: lines 441 to 447; \<open>p_saveImageData\<close>: lines
    455 to 477; \<open>p_setDOMSize\<close>: lines 491 to 494; \<open>p_revoke\<close>: lines 506 to 528;
  \<^item> \<open>p_drawBg\<close>: lines 565 to 632; \<open>p_getLawfulRotateAngle\<close>: lines 638 to 650;
  \<^item> \<open>rotate_board\<close>: \<^verbatim>\<open>rotate\<close>, lines 663 to 679; \<open>setPenStyle\<close>: lines 685 to
    690; \<open>revoke\<close>: lines 695 to 697; \<open>clear\<close>: lines 702 to 721; \<open>setSize\<close>: lines
    728 to 733; \<open>reInit\<close>: lines 739 to 742; \<open>destory\<close>: lines 747 to 751;
    \<open>setClassName\<close>: lines 757 to 760; \<open>mount\<close>: lines 765 to 775; \<open>setBgImg\<close>:
    lines 783 to 811.

  \<^verbatim>\<open>_getLawfulMaxRevokeSteps(steps)\<close>: the three tests of the first line are
  evaluated from left to right. \<^verbatim>\<open>steps <= 0\<close> comes first and converts \<^verbatim>\<open>steps\<close>,
  which throws for a symbol and may throw for an object; after the test of
  \<^verbatim>\<open>typeof\<close>, \<^verbatim>\<open>steps\<close> is a number, and at the last line it is returned as it is.
\<close>

definition p_getLawfulMaxRevokeSteps :: "engine \<Rightarrow> jsval \<Rightarrow> exn + jsnum" where
  "p_getLawfulMaxRevokeSteps tn steps =
     (case le_number tn steps (Fin 0) of
        Inl e \<Rightarrow> Inl e
      | Inr notPositive \<Rightarrow>
          if notPositive \<or> typeof steps \<noteq> ''number'' \<or> isNaN (numberOf steps)
          then Inr (Fin 10)
          else if js_gt (numberOf steps) (Fin 50) then Inr (Fin 50)
          else Inr (numberOf steps))"

text \<open>
  \<^verbatim>\<open>_getLawfulRotateAngle(angle)\<close>. The bare \<^verbatim>\<open>return\<close> of the first line returns
  \<^verbatim>\<open>undefined\<close>; \<^verbatim>\<open>isNaN\<close> is only reached by a number.
\<close>

definition p_getLawfulRotateAngle :: "jsval \<Rightarrow> jsval" where
  "p_getLawfulRotateAngle angle =
     (case angle of
        JNum a \<Rightarrow>
          if isNaN a then JUndefined
          else
            let tempAngle = js_rem a (Fin 360);
                newAngle = (if js_lt tempAngle (Fin 0) then js_add tempAngle (Fin 360)
                            else tempAngle);
                roundAngle =
                  (if js_ge (js_rem newAngle (Fin 90)) (Fin 45)
                   then js_rem (js_mul (Math_ceil (js_div newAngle (Fin 90))) (Fin 90)) (Fin 360)
                   else js_rem (js_mul (Math_floor (js_div newAngle (Fin 90))) (Fin 90)) (Fin 360))
            in JNum (Math_abs roundAngle)
      | _ \<Rightarrow> JUndefined)"


section \<open>The canvas and the state of a board\<close>

text \<open>
  The canvas element and its 2D context belong to the browser. The model keeps what
  the board can observe of them: the dimensions of the bitmap, its pixels, and
  whether the bitmap is origin-clean.

  The result of a drawing call at a pixel is not computed. The colour of a pixel is
  a term that records the calls that have been applied to it since it was
  transparent: two pixels with the same term have the same colour, whatever the
  rasteriser does. A call recorded here has passed the conversion of its
  arguments.
\<close>

datatype draw_op =
    FillArc jsnum jsnum jsnum jsval
  | StrokeLine jsnum jsnum jsnum jsnum jsnum jsval
  | ClearRect jsnum jsnum
  | DrawImage jsval jsnum jsnum jsnum jsnum jsnum jsnum jsnum jsnum jsnum

text \<open>
  Every drawing method of the board brackets its changes of the context between
  \<^verbatim>\<open>save()\<close> and \<^verbatim>\<open>restore()\<close>. When a call in between throws, the changes
  made so far stay in force for the later calls: the model keeps them, in the order
  they were made, and records them with every drawing call.
\<close>

datatype ctx_change =
    CtxFillStyle jsval
  | CtxStrokeStyle jsval
  | CtxTranslate jsnum jsnum
  | CtxRotate jsnum

datatype colour = Transparent | Painted draw_op "ctx_change list" nat nat colour

text \<open>
  The pixels of a bitmap, at every position of the plane: transparent everywhere,
  or the result of a drawing call on other pixels, or \<open>Patch w h upper lower\<close>, which
  has the pixels of \<open>upper\<close> in the rectangle of width \<open>w\<close> and height \<open>h\<close> at the
  origin and the pixels of \<open>lower\<close> elsewhere. A bitmap shows the pixels at the
  positions below its width and height.
\<close>

datatype content =
    Blank
  | Drawn draw_op "ctx_change list" content
  | Patch nat nat content content

primrec pixelAt :: "content \<Rightarrow> nat \<Rightarrow> nat \<Rightarrow> colour" where
  "pixelAt Blank x y = Transparent"
| "pixelAt (Drawn d st c) x y = Painted d st x y (pixelAt c x y)"
| "pixelAt (Patch w h upper lower) x y =
     (if x < w \<and> y < h then pixelAt upper x y else pixelAt lower x y)"

record bitmap =
  cv_width :: nat
  cv_height :: nat
  cv_content :: content
  origin_clean :: bool
  ctx_changes :: "ctx_change list"

text \<open>A new canvas is 300 by 150 pixels, transparent and origin-clean.\<close>

definition newBitmap :: bitmap where
  "newBitmap =
     \<lparr> cv_width = 300, cv_height = 150, cv_content = Blank, origin_clean = True,
       ctx_changes = [] \<rparr>"

text \<open>
  Assigning \<^verbatim>\<open>width\<close> or \<^verbatim>\<open>height\<close> of a canvas element converts the number to an
  unsigned 32-bit integer (\<^verbatim>\<open>NaN\<close> and the infinities to 0, the others truncated
  and reduced modulo \<open>2 ^ 32\<close>), takes the default of the attribute (300 for the
  width, 150 for the height) instead of a value above \<open>2 ^ 31 - 1\<close>, and resets the
  bitmap to transparent pixels and the context to its default state, also when the
  dimension does not change.
\<close>

definition toCanvasDim :: "nat \<Rightarrow> jsnum \<Rightarrow> nat" where
  "toCanvasDim dflt n =
     (case n of
        Fin q \<Rightarrow> (if truncq q mod 2 ^ 32 \<le> 2 ^ 31 - 1 then nat (truncq q mod 2 ^ 32) else dflt)
      | _ \<Rightarrow> 0)"

definition assignCanvasWidth :: "jsnum \<Rightarrow> bitmap \<Rightarrow> bitmap" where
  "assignCanvasWidth n b =
     b\<lparr>cv_width := toCanvasDim 300 n, cv_content := Blank, ctx_changes := []\<rparr>"

definition assignCanvasHeight :: "jsnum \<Rightarrow> bitmap \<Rightarrow> bitmap" where
  "assignCanvasHeight n b =
     b\<lparr>cv_height := toCanvasDim 150 n, cv_content := Blank, ctx_changes := []\<rparr>"

text \<open>
  The pixel data that \<^verbatim>\<open>getImageData\<close> returns: its width, its height, and its
  pixels at the positions below them.
\<close>

record imagedata =
  id_width :: nat
  id_height :: nat
  id_content :: content

text \<open>
  \<^verbatim>\<open>getImageData(0, 0, sw, sh)\<close>. Each of the two arguments is converted to a
  number and then to a signed 32-bit integer. Under the current standard the
  conversion throws a \<^verbatim>\<open>TypeError\<close> for \<^verbatim>\<open>NaN\<close>, for an infinity and for a
  number whose integer part is out of range; under the earlier one it takes
  \<^verbatim>\<open>NaN\<close> and the infinities to 0 and reduces the integer part modulo
  \<open>2 ^ 32\<close>. The call then throws an \<^verbatim>\<open>IndexSizeError\<close> when one of the two
  integers is 0 and a \<^verbatim>\<open>SecurityError\<close> when the bitmap is not origin-clean;
  the engine may refuse the allocation. The data has the size \<open>\<bar>sw\<bar>\<close> by
  \<open>\<bar>sh\<bar>\<close>; its pixels are those of the bitmap where the rectangle read lies on
  the bitmap and transparent elsewhere, and a rectangle of negative width or height
  lies outside the bitmap. Pixel data that is written back gives the pixels that
  were read.
\<close>

definition toLong :: "engine \<Rightarrow> jsnum \<Rightarrow> exn + int" where
  "toLong tn n =
     (case n of
        Fin q \<Rightarrow>
          if enforcesRange tn
          then (if - (2 ^ 31) \<le> truncq q \<and> truncq q \<le> 2 ^ 31 - 1 then Inr (truncq q)
                else Inl TypeError)
          else Inr (if truncq q mod 2 ^ 32 < 2 ^ 31 then truncq q mod 2 ^ 32
                    else truncq q mod 2 ^ 32 - 2 ^ 32)
      | _ \<Rightarrow> if enforcesRange tn then Inl TypeError else Inr 0)"

definition longOf :: "engine \<Rightarrow> jsval \<Rightarrow> exn + int" where
  "longOf tn v = (case ToNumber tn v of Inl e \<Rightarrow> Inl e | Inr n \<Rightarrow> toLong tn n)"

definition getImageData :: "engine \<Rightarrow> jsval \<Rightarrow> jsval \<Rightarrow> bitmap \<Rightarrow> exn + imagedata" where
  "getImageData tn w h b =
     (case longOf tn w of
        Inl e \<Rightarrow> Inl e
      | Inr sw \<Rightarrow>
          (case longOf tn h of
             Inl e \<Rightarrow> Inl e
           | Inr sh \<Rightarrow>
               if sw = 0 \<or> sh = 0 then Inl IndexSizeError
               else if \<not> origin_clean b then Inl SecurityError
               else if \<not> allocates tn (nat \<bar>sw\<bar>) (nat \<bar>sh\<bar>) then Inl RangeError
               else Inr \<lparr> id_width = nat \<bar>sw\<bar>, id_height = nat \<bar>sh\<bar>,
                          id_content =
                            (if 0 < sw \<and> 0 < sh
                             then Patch (cv_width b) (cv_height b) (cv_content b) Blank
                             else Blank) \<rparr>))"

text \<open>
  \<^verbatim>\<open>putImageData(imageData, 0, 0)\<close> replaces the pixels of the bitmap in the
  rectangle of the data, at the origin, and leaves the others.
\<close>

definition putImageData :: "imagedata \<Rightarrow> bitmap \<Rightarrow> bitmap" where
  "putImageData d b =
     b\<lparr>cv_content := Patch (id_width d) (id_height d) (id_content d) (cv_content b)\<rparr>"

text \<open>
  A drawing call on the bitmap, and a change of the context that is not restored.
\<close>

definition drawn :: "draw_op \<Rightarrow> bitmap \<Rightarrow> bitmap" where
  "drawn d b = b\<lparr>cv_content := Drawn d (ctx_changes b) (cv_content b)\<rparr>"

definition unrestored :: "ctx_change list \<Rightarrow> bitmap \<Rightarrow> bitmap" where
  "unrestored cs b = b\<lparr>ctx_changes := ctx_changes b @ cs\<rparr>"

text \<open>An entry of the revoke stack: \<^verbatim>\<open>{ type, paintCount, imageData }\<close>.\<close>

record entry =
  entry_type :: jsval
  entry_paintCount :: nat
  entry_imageData :: imagedata

text \<open>
  The calls of the two user callbacks are effects outside the board; the model
  records them, with their argument, in the order they are made.
\<close>

datatype callback_call = RevokeStackChange "entry list" | PaintEnd nat

text \<open>
  An object literal is the list of its properties; reading a property that the
  object does not have gives \<^verbatim>\<open>undefined\<close>.
\<close>

type_synonym jsobj = "(string \<times> jsval) list"

definition getProp :: "jsobj \<Rightarrow> string \<Rightarrow> jsval" where
  "getProp obj k = (case map_of obj k of None \<Rightarrow> JUndefined | Some v \<Rightarrow> v)"

text \<open>
  \<^verbatim>\<open>this.options\<close>, the defaults merged with the options of the caller; the option
  \<^verbatim>\<open>size\<close> is an array. The fields carry the prefix \<open>o_\<close> to tell them from the
  fields of the board.
\<close>

record options =
  o_size :: "jsval list"
  o_className :: jsval
  o_manualMount :: jsval
  o_maxRevokeSteps :: jsval
  o_interactiveMode :: jsval
  o_penColor :: jsval
  o_penWidth :: jsval
  o_bgImgURL :: jsval
  o_bgImgRotate :: jsval
  o_bgColor :: jsval
  o_onRevokeStackChange :: jsval
  o_onPaintEnd :: jsval

definition defaultOptions :: options where
  "defaultOptions =
     \<lparr> o_size = [],
       o_className = JStr [],
       o_manualMount = JBool False,
       o_maxRevokeSteps = JNum (Fin 10),
       o_interactiveMode = JStr ''mouse'',
       o_penColor = JStr ''red'',
       o_penWidth = JNum (Fin 6),
       o_bgImgURL = JStr [],
       o_bgImgRotate = JNum (Fin 0),
       o_bgColor = JStr ''#fff'',
       o_onRevokeStackChange = JNull,
       o_onPaintEnd = JNull \<rparr>"

text \<open>
  The fields of a \<^verbatim>\<open>DrawingBoard\<close>. A canvas element is identified by a number;
  \<open>ctx\<close> holds the number of the canvas whose context the board keeps, and
  \<open>surface\<close> is the bitmap of that canvas. \<open>canvases\<close> counts the elements
  created so far and \<open>listeners\<close> holds the listeners registered on them.
  \<open>originalSize\<close> is \<open>None\<close> as long as the field has not been assigned.
  \<open>paintCount\<close> is a counter that starts at 0 and is only incremented or copied.
\<close>

record board =
  el :: "nat option"
  ctx :: "nat option"
  surface :: bitmap
  canvases :: nat
  listeners :: "(nat \<times> jsval \<times> jsval) list"
  options :: options
  width :: jsval
  height :: jsval
  manualMount :: jsval
  revokeStack :: "entry list"
  MAX_REVOKE_STEPS :: jsnum
  lastPoint :: "(jsnum \<times> jsnum) option"
  isPainting :: bool
  interactiveMode :: jsval
  generation :: nat
  eventList :: "jsobj list"
  penColor :: jsval
  penWidth :: jsval
  bgImgRotate :: jsval
  className :: jsval
  bgImgObject :: jsval
  originalSize :: "(jsval \<times> jsval) option"
  onRevokeStackChange :: jsval
  onPaintEnd :: jsval
  paintCount :: nat
  callbackLog :: "callback_call list"

text \<open>
  The object before \<^verbatim>\<open>_init\<close> has run: no field is assigned; \<open>NaN\<close> stands for
  the unassigned maximum, which compares like it.
\<close>

definition blank :: board where
  "blank =
     \<lparr> el = None, ctx = None, surface = newBitmap, canvases = 0, listeners = [],
       options = defaultOptions, width = JUndefined, height = JUndefined,
       manualMount = JUndefined, revokeStack = [], MAX_REVOKE_STEPS = NaN,
       lastPoint = None, isPainting = False, interactiveMode = JUndefined,
       generation = 0, eventList = [], penColor = JUndefined, penWidth = JUndefined,
       bgImgRotate = JUndefined, className = JUndefined, bgImgObject = JUndefined,
       originalSize = None, onRevokeStackChange = JUndefined, onPaintEnd = JUndefined,
       paintCount = 0, callbackLog = [] \<rparr>"

text \<open>
  An exception leaves the fields as they are when it is thrown: a method that can
  throw returns the exception, if any, with the state. \<open>andThen r f\<close> continues
  with \<open>f\<close> when \<open>r\<close> has not thrown.
\<close>

definition andThen ::
  "exn option \<times> board \<Rightarrow> (board \<Rightarrow> exn option \<times> board) \<Rightarrow> exn option \<times> board" where
  "andThen r f = (case fst r of None \<Rightarrow> f (snd r) | Some e \<Rightarrow> r)"

section \<open>The event router\<close>

text \<open>The table \<^verbatim>\<open>this.eventList\<close>, for the handlers of one generation.\<close>

definition eventItem :: "string \<Rightarrow> string \<Rightarrow> string \<Rightarrow> jsfun \<Rightarrow> jsobj" where
  "eventItem pt a n h =
     [(''pointerType'', JStr pt), (''action'', JStr a), (''name'', JStr n),
      (''handler'', JFun h)]"

definition mkEventList :: "nat \<Rightarrow> jsobj list" where
  "mkEventList g =
     [ eventItem ''mouse'' ''start'' ''mousedown'' (Bound HStart g),
       eventItem ''mouse'' ''move'' ''mousemove'' (Bound HMove g),
       eventItem ''mouse'' ''end'' ''mouseup'' (Bound HEnd g),
       eventItem ''mouse'' ''leave'' ''mouseleave'' (Bound HLeave g),
       eventItem ''touch'' ''start'' ''touchstart'' (Bound HStart g),
       eventItem ''touch'' ''move'' ''touchmove'' (Bound HMove g),
       eventItem ''touch'' ''end'' ''touchend'' (Bound HEnd g),
       eventItem ''touch'' ''cancel'' ''touchcancel'' (Bound HCancel g) ]"

definition p_getPointerType :: "jsval \<Rightarrow> jsval" where
  "p_getPointerType mode =
     (if strict_eq mode (JStr ''both'') then JStr []
      else if strict_eq mode (JStr ''touch'') then JStr ''touch''
      else JStr ''mouse'')"

text \<open>
  \<^verbatim>\<open>_getEventItems({ mode, action })\<close> reads the properties \<^verbatim>\<open>mode\<close> and
  \<^verbatim>\<open>action\<close> of the condition it is given, and the filters read \<^verbatim>\<open>item.mode\<close>
  and \<^verbatim>\<open>item.action\<close>.
\<close>

definition p_getEventItems :: "jsobj \<Rightarrow> jsobj list \<Rightarrow> jsobj list" where
  "p_getEventItems condition evs =
     (let mode = getProp condition ''mode''; action = getProp condition ''action'' in
      if truthy mode \<and> truthy action then
        filter (\<lambda>item. strict_eq (getProp item ''mode'') mode
                     \<and> strict_eq (getProp item ''action'') action) evs
      else if truthy mode \<and> \<not> truthy action then
        filter (\<lambda>item. strict_eq (getProp item ''mode'') mode) evs
      else if \<not> truthy mode \<and> truthy action then
        filter (\<lambda>item. strict_eq (getProp item ''action'') action) evs
      else evs)"

text \<open>
  \<^verbatim>\<open>addEventListener\<close> does not register the same listener twice on an element;
  \<^verbatim>\<open>removeEventListener\<close> removes it.
\<close>

definition addEventListener ::
  "nat \<Rightarrow> jsval \<Rightarrow> jsval \<Rightarrow> (nat \<times> jsval \<times> jsval) list \<Rightarrow> (nat \<times> jsval \<times> jsval) list" where
  "addEventListener e n h ls = (if (e, n, h) \<in> set ls then ls else ls @ [(e, n, h)])"

definition removeEventListener ::
  "nat \<Rightarrow> jsval \<Rightarrow> jsval \<Rightarrow> (nat \<times> jsval \<times> jsval) list \<Rightarrow> (nat \<times> jsval \<times> jsval) list" where
  "removeEventListener e n h ls = filter (\<lambda>l. l \<noteq> (e, n, h)) ls"

definition p_bindEvent :: "jsobj \<Rightarrow> board \<Rightarrow> board" where
  "p_bindEvent condition s =
     (case el s of
        None \<Rightarrow> s
      | Some e \<Rightarrow>
          s\<lparr>listeners :=
              fold (\<lambda>item. addEventListener e (getProp item ''name'') (getProp item ''handler''))
                (p_getEventItems condition (eventList s)) (listeners s)\<rparr>)"

definition p_cleanEvent :: "jsobj \<Rightarrow> board \<Rightarrow> board" where
  "p_cleanEvent condition s =
     (case el s of
        None \<Rightarrow> s
      | Some e \<Rightarrow>
          s\<lparr>listeners :=
              fold (\<lambda>item. removeEventListener e (getProp item ''name'') (getProp item ''handler''))
                (p_getEventItems condition (eventList s)) (listeners s)\<rparr>)"

definition p_cleanCurModeEvents :: "jsobj \<Rightarrow> board \<Rightarrow> board" where
  "p_cleanCurModeEvents arg s =
     (if el s = None then s
      else
        let pointerType = p_getPointerType (interactiveMode s);
            condition = [(''pointerType'', pointerType), (''action'', getProp arg ''action'')]
        in p_cleanEvent condition s)"

definition p_bindCurModeEvents :: "jsobj \<Rightarrow> board \<Rightarrow> board" where
  "p_bindCurModeEvents arg s =
     (if el s = None then s
      else
        let pointerType = p_getPointerType (interactiveMode s);
            condition = [(''pointerType'', pointerType), (''action'', getProp arg ''action'')]
        in p_bindEvent condition (p_cleanCurModeEvents condition s))"


section \<open>Size, pen and drawing primitives\<close>

text \<open>
  \<^verbatim>\<open>_setDOMSize([width, height])\<close> assigns the dimensions of the element, the
  width first; an assignment converts its value to a number, which can throw. The
  model records the assignment when the element is the canvas of the context the
  board keeps; a canvas that \<^verbatim>\<open>mount\<close> created after \<^verbatim>\<open>destory\<close> is another
  one, and the board never reads it.
\<close>

definition assignDim ::
  "engine \<Rightarrow> (jsnum \<Rightarrow> bitmap \<Rightarrow> bitmap) \<Rightarrow> jsval \<Rightarrow> board \<Rightarrow> exn option \<times> board" where
  "assignDim tn assign v s =
     (if eq_null v \<or> el s = None then (None, s)
      else case ToNumber tn v of
             Inl e \<Rightarrow> (Some e, s)
           | Inr n \<Rightarrow> (None, if el s = ctx s then s\<lparr>surface := assign n (surface s)\<rparr> else s))"

definition p_setDOMSize :: "engine \<Rightarrow> jsval \<Rightarrow> jsval \<Rightarrow> board \<Rightarrow> exn option \<times> board" where
  "p_setDOMSize tn w h s =
     andThen (assignDim tn assignCanvasWidth w s) (assignDim tn assignCanvasHeight h)"

definition setSize :: "engine \<Rightarrow> jsval \<Rightarrow> jsval \<Rightarrow> board \<Rightarrow> exn option \<times> board" where
  "setSize tn w h s =
     p_setDOMSize tn w h
       (s\<lparr>width := (if truthy w then w else width s),
          height := (if truthy h then h else height s)\<rparr>)"

text \<open>
  \<^verbatim>\<open>setPenStyle({ color, width })\<close>. \<^verbatim>\<open>&&\<close> evaluates from left to right, so
  \<^verbatim>\<open>width > 0\<close> only compares a number.
\<close>

definition setPenStyle :: "jsval \<Rightarrow> jsval \<Rightarrow> board \<Rightarrow> board" where
  "setPenStyle color w s =
     (let s1 = (if truthy color \<and> typeof color = ''string'' then s\<lparr>penColor := color\<rparr> else s)
      in if truthy w \<and> typeof w = ''number'' \<and> \<not> isNaN (numberOf w)
            \<and> js_gt (numberOf w) (Fin 0)
         then s1\<lparr>penWidth := w\<rparr> else s1)"

text \<open>
  A pointer event, as \<^verbatim>\<open>_getPointOffset\<close> reads it: a mouse event with
  \<^verbatim>\<open>offsetX\<close> and \<^verbatim>\<open>offsetY\<close>, or a touch event with \<^verbatim>\<open>clientX\<close> and
  \<^verbatim>\<open>clientY\<close> of its first touch and \<^verbatim>\<open>left\<close> and \<^verbatim>\<open>top\<close> of the bounding
  rectangle of its target. The listeners of the board receive no other event.
\<close>

datatype pevent = MouseEvent jsnum jsnum | TouchEvent jsnum jsnum jsnum jsnum

definition p_getPointOffset :: "pevent \<Rightarrow> jsnum \<times> jsnum" where
  "p_getPointOffset e =
     (case e of
        MouseEvent offsetX offsetY \<Rightarrow> (offsetX, offsetY)
      | TouchEvent clientX clientY rectLeft rectTop \<Rightarrow>
          (js_sub clientX rectLeft, js_sub clientY rectTop))"

text \<open>
  \<^verbatim>\<open>_drawCircle(x, y, radius = 3, color = 'red')\<close> and
  \<^verbatim>\<open>_drawLine(x1, y1, x2, y2, width = 6, color = 'red')\<close>: a default stands for an
  argument that is \<^verbatim>\<open>undefined\<close>. The radius the board passes is a number,
  \<^verbatim>\<open>this.penWidth / 2\<close>. \<^verbatim>\<open>arc\<close> does nothing when an argument is not finite and
  throws an \<^verbatim>\<open>IndexSizeError\<close> for a negative radius; the assignment of
  \<^verbatim>\<open>lineWidth\<close> converts the width to a number. The pen colour of a board is a
  string or unassigned (see \<open>setPenStyle\<close>), and the assignment of such a colour
  does not throw.
\<close>

definition p_drawCircle :: "jsnum \<Rightarrow> jsnum \<Rightarrow> jsnum \<Rightarrow> jsval \<Rightarrow> board \<Rightarrow> exn option \<times> board" where
  "p_drawCircle x y radius color0 s =
     (let color = (if color0 = JUndefined then JStr ''red'' else color0) in
      if ctx s = None then (None, s)
      else if \<not> (isFinite x \<and> isFinite y \<and> isFinite radius) then (None, s)
      else if js_lt radius (Fin 0)
      then (Some IndexSizeError, s\<lparr>surface := unrestored [CtxFillStyle color] (surface s)\<rparr>)
      else (None, s\<lparr>surface := drawn (FillArc x y radius color) (surface s)\<rparr>))"

definition p_drawLine ::
  "engine \<Rightarrow> jsnum \<Rightarrow> jsnum \<Rightarrow> jsnum \<Rightarrow> jsnum \<Rightarrow> jsval \<Rightarrow> jsval \<Rightarrow> board \<Rightarrow> exn option \<times> board" where
  "p_drawLine tn x1 y1 x2 y2 w0 color0 s =
     (let w = (if w0 = JUndefined then JNum (Fin 6) else w0);
          color = (if color0 = JUndefined then JStr ''red'' else color0)
      in
      if ctx s = None then (None, s)
      else case ToNumber tn w of
             Inl e \<Rightarrow> (Some e, s\<lparr>surface := unrestored [CtxStrokeStyle color] (surface s)\<rparr>)
           | Inr lineWidth \<Rightarrow>
               (None, s\<lparr>surface := drawn (StrokeLine x1 y1 x2 y2 lineWidth color) (surface s)\<rparr>))"

text \<open>
  \<^verbatim>\<open>_drawBg(imgObject, w, h)\<close>. The tests \<^verbatim>\<open>w <= 0\<close> and \<^verbatim>\<open>h <= 0\<close> convert
  their operand, and so do \<^verbatim>\<open>-this.width / 2\<close> and \<^verbatim>\<open>-this.height / 2\<close>, in the
  order that the rotation decides. After \<^verbatim>\<open>save()\<close> come \<^verbatim>\<open>translate\<close>, the
  product with \<^verbatim>\<open>this.bgImgRotate\<close> for \<^verbatim>\<open>rotate\<close>, and \<^verbatim>\<open>drawImage\<close>, which
  throws a \<^verbatim>\<open>TypeError\<close> for a first argument that is not an image and converts
  its numbers; it then draws nothing when one of them is not finite, and throws an
  \<^verbatim>\<open>InvalidStateError\<close> for a broken image. An image of another origin taints the
  bitmap. The recorded operation carries the arguments of \<^verbatim>\<open>drawImage\<close> after the
  source origin, which is always (0, 0): the image, the source size, the
  destination origin and size; then the two arguments of \<^verbatim>\<open>translate\<close> and the
  rotation in degrees.
\<close>

definition imageKind :: "engine \<Rightarrow> jsval \<Rightarrow> image_kind option" where
  "imageKind tn v = (case v of JObj i \<Rightarrow> imageSource tn v | _ \<Rightarrow> None)"

definition p_drawBg :: "engine \<Rightarrow> jsval \<Rightarrow> jsval \<Rightarrow> jsval \<Rightarrow> board \<Rightarrow> exn option \<times> board" where
  "p_drawBg tn imgObject w h s =
     (if \<not> truthy imgObject \<or> ctx s = None \<or> \<not> truthy w \<or> \<not> truthy h then (None, s)
      else case le_number tn w (Fin 0) of Inl e \<Rightarrow> (Some e, s) | Inr wLow \<Rightarrow>
        if wLow then (None, s)
        else case le_number tn h (Fin 0) of Inl e \<Rightarrow> (Some e, s) | Inr hLow \<Rightarrow>
        if hLow then (None, s)
        else
          let upright = (strict_eq (bgImgRotate s) (JNum (Fin 0))
                          \<or> strict_eq (bgImgRotate s) (JNum (Fin 180)))
          in
          case ToNumber tn (if upright then width s else height s) of
            Inl e \<Rightarrow> (Some e, s) | Inr across \<Rightarrow>
          case ToNumber tn (if upright then height s else width s) of
            Inl e \<Rightarrow> (Some e, s) | Inr down \<Rightarrow>
            let dx = js_div (js_neg across) (Fin 2);
                dy = js_div (js_neg down) (Fin 2);
                moved = CtxTranslate (js_div (if upright then across else down) (Fin 2))
                                     (js_div (if upright then down else across) (Fin 2))
            in
            case ToNumber tn (bgImgRotate s) of
              Inl e \<Rightarrow> (Some e, s\<lparr>surface := unrestored [moved] (surface s)\<rparr>)
            | Inr turned \<Rightarrow>
                let failed = s\<lparr>surface := unrestored [moved, CtxRotate turned] (surface s)\<rparr> in
                case imageKind tn imgObject of
                  None \<Rightarrow> (Some TypeError, failed) | Some kind \<Rightarrow>
                case ToNumber tn w of Inl e \<Rightarrow> (Some e, failed) | Inr sWidth \<Rightarrow>
                case ToNumber tn h of Inl e \<Rightarrow> (Some e, failed) | Inr sHeight \<Rightarrow>
                  if \<not> (isFinite sWidth \<and> isFinite sHeight \<and> isFinite dx \<and> isFinite dy
                        \<and> isFinite across \<and> isFinite down)
                  then (None, s)
                  else if kind = Broken then (Some InvalidStateError, failed)
                  else (None,
                        s\<lparr>surface :=
                            (drawn (DrawImage imgObject sWidth sHeight dx dy across down
                                      (js_div (if upright then across else down) (Fin 2))
                                      (js_div (if upright then down else across) (Fin 2))
                                      turned)
                               (surface s))
                              \<lparr>origin_clean := origin_clean (surface s) \<and> kind \<noteq> Tainting\<rparr>\<rparr>))"

section \<open>The revoke stack\<close>

definition isFunction :: "jsval \<Rightarrow> bool" where
  "isFunction v = (truthy v \<and> typeof v = ''function'')"

text \<open>\<^verbatim>\<open>Array.prototype.shift\<close> removes the first element, if there is one.\<close>

definition shift :: "'a list \<Rightarrow> 'a list" where
  "shift xs = (case xs of [] \<Rightarrow> [] | x # rest \<Rightarrow> rest)"

text \<open>
  \<^verbatim>\<open>_saveImageData(type = 'paint', paintCount, imageData)\<close>. The board passes its
  paint count, a number, and the result of \<^verbatim>\<open>getImageData\<close>, an
  \<^verbatim>\<open>ImageData\<close>; of the guard, the test of the type remains.
\<close>

definition p_saveImageData :: "jsval \<Rightarrow> nat \<Rightarrow> imagedata \<Rightarrow> board \<Rightarrow> board" where
  "p_saveImageData type0 pc imageData s =
     (let ty = (if type0 = JUndefined then JStr ''paint'' else type0) in
      if \<not> arr_includes [JStr ''paint'', JStr ''clear''] ty then s
      else
        let shifted = (if js_ge (Fin (of_nat (length (revokeStack s)))) (MAX_REVOKE_STEPS s)
                       then shift (revokeStack s) else revokeStack s);
            pushed = shifted @ [\<lparr>entry_type = ty, entry_paintCount = pc,
                                  entry_imageData = imageData\<rparr>]
        in s\<lparr>revokeStack := pushed,
              callbackLog := callbackLog s @
                (if isFunction (onRevokeStackChange s) then [RevokeStackChange pushed] else [])\<rparr>)"

text \<open>\<^verbatim>\<open>_revoke()\<close>; the array \<^verbatim>\<open>this.revokeStack\<close> is always an object.\<close>

definition p_revoke :: "board \<Rightarrow> board" where
  "p_revoke s =
     (if ctx s = None \<or> revokeStack s = [] then s
      else
        let popped = last (revokeStack s);
            rest = butlast (revokeStack s)
        in s\<lparr>revokeStack := rest,
              surface := putImageData (entry_imageData popped) (surface s),
              paintCount := entry_paintCount popped,
              callbackLog := callbackLog s @
                (if isFunction (onRevokeStackChange s) then [RevokeStackChange rest] else [])\<rparr>)"

definition revoke :: "board \<Rightarrow> board" where
  "revoke s = p_revoke s"

section \<open>The pointer handlers\<close>

text \<open>
  \<^verbatim>\<open>_handlePointerStart(e)\<close>: when \<^verbatim>\<open>getImageData\<close> throws, nothing is pushed,
  drawn or bound.
\<close>

definition p_handlePointerStart :: "engine \<Rightarrow> pevent \<Rightarrow> board \<Rightarrow> exn option \<times> board" where
  "p_handlePointerStart tn e s =
     (let s1 = s\<lparr>isPainting := True, lastPoint := Some (p_getPointOffset e)\<rparr> in
      andThen
        (if ctx s1 = None then (None, s1)
         else case getImageData tn (width s1) (height s1) (surface s1) of
                Inl x \<Rightarrow> (Some x, s1)
              | Inr imageData \<Rightarrow>
                  (None, p_saveImageData (JStr ''paint'') (paintCount s1) imageData s1))
        (\<lambda>s2.
           case ToNumber tn (penWidth s2) of
             Inl x \<Rightarrow> (Some x, s2)
           | Inr pw \<Rightarrow>
               andThen
                 (p_drawCircle (fst (p_getPointOffset e)) (snd (p_getPointOffset e))
                    (js_div pw (Fin 2)) (penColor s2) s2)
                 (\<lambda>s3. (None,
                    p_bindCurModeEvents [(''action'', JStr ''leave'')]
                      (p_bindCurModeEvents [(''action'', JStr ''end'')]
                         (p_bindCurModeEvents [(''action'', JStr ''move'')] s3))))))"

text \<open>Destructuring \<^verbatim>\<open>this.lastPoint\<close> throws when it is \<^verbatim>\<open>null\<close>.\<close>

definition p_handlePointerMove :: "engine \<Rightarrow> pevent \<Rightarrow> board \<Rightarrow> exn option \<times> board" where
  "p_handlePointerMove tn e s =
     (if \<not> isPainting s then (None, s)
      else
        case lastPoint s of
          None \<Rightarrow> (Some TypeError, s)
        | Some (lastX, lastY) \<Rightarrow>
            andThen
              (p_drawLine tn lastX lastY (fst (p_getPointOffset e)) (snd (p_getPointOffset e))
                 (penWidth s) (penColor s) s)
              (\<lambda>s1. (None, s1\<lparr>lastPoint := Some (p_getPointOffset e)\<rparr>)))"

definition p_handlePointerEnd :: "board \<Rightarrow> board" where
  "p_handlePointerEnd s =
     (let s1 = s\<lparr>isPainting := False, paintCount := Suc (paintCount s)\<rparr>;
          s2 = s1\<lparr>callbackLog := callbackLog s1 @
                    (if isFunction (onPaintEnd s1) then [PaintEnd (paintCount s1)] else [])\<rparr>
      in p_cleanCurModeEvents [(''action'', JStr ''leave'')]
           (p_cleanCurModeEvents [(''action'', JStr ''end'')]
              (p_cleanCurModeEvents [(''action'', JStr ''move'')] s2)))"

definition p_handlePointerLeave :: "board \<Rightarrow> board" where
  "p_handlePointerLeave s = (if isPainting s then p_handlePointerEnd s else s)"

definition p_handlePointerCancel :: "board \<Rightarrow> board" where
  "p_handlePointerCancel s = (if isPainting s then p_handlePointerEnd s else s)"

section \<open>The public operations\<close>

text \<open>
  \<^verbatim>\<open>rotate(direction = 1)\<close>, named \<open>rotate_board\<close> here. The field
  \<^verbatim>\<open>this.bgImgRotate\<close> is \<^verbatim>\<open>undefined\<close> or a number, so \<^verbatim>\<open>+\<close> adds numbers, and
  \<^verbatim>\<open>direction\<close> is a number once the guard is passed. The call of \<^verbatim>\<open>_drawBg\<close>
  spreads \<^verbatim>\<open>this.originalSize\<close> into the arguments, which throws a \<^verbatim>\<open>TypeError\<close>
  when the field is \<^verbatim>\<open>undefined\<close>; the two assignments after the call are then
  not reached, nor are they when \<^verbatim>\<open>setSize\<close> or \<^verbatim>\<open>_drawBg\<close> throws.
\<close>

definition rotate_board :: "engine \<Rightarrow> jsval \<Rightarrow> board \<Rightarrow> exn option \<times> board" where
  "rotate_board tn direction0 s =
     (let direction = (if direction0 = JUndefined then JNum (Fin 1) else direction0) in
      if \<not> arr_includes [JNum (Fin 1), JNum (Fin (- 1))] direction then (None, s)
      else
        case ToNumber tn (bgImgRotate s) of
          Inl e \<Rightarrow> (Some e, s)
        | Inr r \<Rightarrow>
            let s1 = s\<lparr>bgImgRotate :=
                         p_getLawfulRotateAngle
                           (JNum (js_add r (js_mul (numberOf direction) (Fin 90))))\<rparr>
            in andThen (setSize tn (height s1) (width s1) s1)
                 (\<lambda>s2. case originalSize s2 of
                          None \<Rightarrow> (Some TypeError, s2)
                        | Some (w, h) \<Rightarrow>
                            andThen (p_drawBg tn (bgImgObject s2) w h s2)
                              (\<lambda>s3. (None, s3\<lparr>paintCount := 0, revokeStack := []\<rparr>))))"

text \<open>
  \<^verbatim>\<open>clear()\<close>. The arguments of \<^verbatim>\<open>_saveImageData\<close> are evaluated before the
  call, so nothing is pushed when \<^verbatim>\<open>getImageData\<close> throws. \<^verbatim>\<open>clearRect\<close> does
  nothing when an argument is not finite. The spread of \<^verbatim>\<open>this.originalSize\<close> is
  only evaluated when there is a background image.
\<close>

definition clear :: "engine \<Rightarrow> board \<Rightarrow> exn option \<times> board" where
  "clear tn s =
     (if ctx s = None \<or> el s = None then (None, s)
      else
        case getImageData tn (width s) (height s) (surface s) of
          Inl e \<Rightarrow> (Some e, s)
        | Inr imageData \<Rightarrow>
            let s1 = p_saveImageData (JStr ''clear'') (paintCount s) imageData s in
            case ToNumber tn (width s1) of Inl e \<Rightarrow> (Some e, s1) | Inr w \<Rightarrow>
            case ToNumber tn (height s1) of Inl e \<Rightarrow> (Some e, s1) | Inr h \<Rightarrow>
              let s2 = (if isFinite w \<and> isFinite h
                        then s1\<lparr>surface := drawn (ClearRect w h) (surface s1)\<rparr> else s1)
                       \<lparr>paintCount := 0\<rparr>
              in if truthy (bgImgObject s2)
                 then (case originalSize s2 of
                         None \<Rightarrow> (Some TypeError, s2)
                       | Some (ow, oh) \<Rightarrow> p_drawBg tn (bgImgObject s2) ow oh s2)
                 else (None, s2))"

text \<open>
  The test \<^verbatim>\<open>/^(http[s]?)|(data:image)/\<close>: the string starts with \<^verbatim>\<open>http\<close> or
  contains \<^verbatim>\<open>data:image\<close>.
\<close>

definition looksLikeURL :: "string \<Rightarrow> bool" where
  "looksLikeURL u = (prefix ''http'' u \<or> sublist ''data:image'' u)"

text \<open>
  \<^verbatim>\<open>setBgImg(urlOrObject, originalWidth, originalHeight)\<close>. With a URL the image is
  loaded asynchronously and nothing changes before the load settles (see
  \<open>SetBgImageLoaded\<close> and \<open>ImageLoadFailed\<close> below).
\<close>

definition setBgImg ::
  "engine \<Rightarrow> jsval \<Rightarrow> jsval \<Rightarrow> jsval \<Rightarrow> board \<Rightarrow> exn option \<times> board" where
  "setBgImg tn urlOrObject originalWidth originalHeight s =
     (if typeof urlOrObject = ''string''
         \<and> (case urlOrObject of JStr u \<Rightarrow> looksLikeURL u | _ \<Rightarrow> False)
      then (None, s)
      else
        let s1 = (if \<not> strict_eq urlOrObject (bgImgObject s)
                  then s\<lparr>bgImgObject := urlOrObject\<rparr> else s);
            s2 = s1\<lparr>originalSize := Some (js_or originalWidth (width s1),
                                             js_or originalHeight (height s1))\<rparr>
        in p_drawBg tn urlOrObject (js_or originalWidth (width s1))
             (js_or originalHeight (height s1)) s2)"

text \<open>
  \<^verbatim>\<open>setClassName(name)\<close> converts the name to a string, which can throw; the class
  of the element is not part of the state.
\<close>

definition setClassName :: "engine \<Rightarrow> jsval \<Rightarrow> board \<Rightarrow> exn option \<times> board" where
  "setClassName tn name s =
     (if \<not> truthy name \<or> el s = None then (None, s) else (ToString_fails tn name, s))"

text \<open>
  \<^verbatim>\<open>mount()\<close>. A new canvas has the bitmap \<open>newBitmap\<close>, and \<^verbatim>\<open>getContext('2d')\<close>
  of a new canvas gives its context; the board has an element without a context
  in no state.
\<close>

definition mount :: "engine \<Rightarrow> board \<Rightarrow> exn option \<times> board" where
  "mount tn s =
     (let s1 = (if el s = None
                then s\<lparr>el := Some (canvases s), canvases := Suc (canvases s)\<rparr> else s);
          s2 = (if ctx s1 = None then s1\<lparr>ctx := el s1, surface := newBitmap\<rparr> else s1)
      in andThen (p_setDOMSize tn (width s2) (height s2) s2)
           (\<lambda>s3. andThen (setClassName tn (className s3) s3)
              (\<lambda>s4. (None, p_bindCurModeEvents [(''action'', JStr ''start'')] s4))))"

text \<open>\<^verbatim>\<open>destory()\<close>: \<^verbatim>\<open>removeChild(null)\<close> throws.\<close>

definition destory :: "board \<Rightarrow> exn option \<times> board" where
  "destory s =
     (if el s = None then (Some TypeError, s)
      else (None, s\<lparr>el := None, bgImgObject := JNull\<rparr>))"

text \<open>
  \<^verbatim>\<open>_init(container, options)\<close>, for a container that exists. \<open>rect\<close> is the width
  and the height that \<^verbatim>\<open>getBoundingClientRect()\<close> of the container returns, and
  \<open>opts\<close> the merged options. With a background URL the image is loaded
  asynchronously (see \<open>InitImageLoaded\<close> and \<open>ImageLoadFailed\<close> below).
\<close>

definition nth_or_undefined :: "jsval list \<Rightarrow> nat \<Rightarrow> jsval" where
  "nth_or_undefined xs i = (if i < length xs then xs ! i else JUndefined)"

definition INTERACTIVE_MODE_ENUM :: "jsval list" where
  "INTERACTIVE_MODE_ENUM = [JStr ''mouse'', JStr ''touch'', JStr ''both'']"

definition p_init :: "engine \<Rightarrow> jsnum \<times> jsnum \<Rightarrow> options \<Rightarrow> board \<Rightarrow> exn option \<times> board" where
  "p_init tn rect opts s =
     (let w = nth_or_undefined (o_size opts) 0;
          h = nth_or_undefined (o_size opts) 1
      in
      andThen
        (setSize tn (if eq_null w then JNum (fst rect) else w)
           (if eq_null h then JNum (snd rect) else h) (s\<lparr>options := opts\<rparr>))
        (\<lambda>s1.
           let s2 = s1\<lparr>manualMount := o_manualMount opts, revokeStack := []\<rparr> in
           case p_getLawfulMaxRevokeSteps tn (o_maxRevokeSteps opts) of
             Inl e \<Rightarrow> (Some e, s2)
           | Inr m \<Rightarrow>
               let s3 = s2\<lparr>MAX_REVOKE_STEPS := m,
                           lastPoint := None,
                           isPainting := False,
                           interactiveMode :=
                             (if arr_includes INTERACTIVE_MODE_ENUM (o_interactiveMode opts)
                              then o_interactiveMode opts else JStr ''mouse''),
                           generation := Suc (generation s2),
                           eventList := mkEventList (Suc (generation s2))\<rparr>;
                   s4 = setPenStyle (o_penColor opts) (o_penWidth opts) s3
               in (None,
                   s4\<lparr>bgImgRotate := p_getLawfulRotateAngle (o_bgImgRotate opts),
                      className := o_className opts,
                      bgImgObject := (if truthy (o_bgImgURL opts) then bgImgObject s4 else JNull),
                      onRevokeStackChange := o_onRevokeStackChange opts,
                      onPaintEnd := o_onPaintEnd opts,
                      paintCount := 0\<rparr>)))"

text \<open>
  \<^verbatim>\<open>new DrawingBoard(container, options)\<close>: the exception, if the constructor
  throws, with the object; \<open>DrawingBoard\<close> is the object.
\<close>

definition new_DrawingBoard ::
  "engine \<Rightarrow> jsnum \<times> jsnum \<Rightarrow> options \<Rightarrow> exn option \<times> board" where
  "new_DrawingBoard tn rect opts =
     andThen (p_init tn rect opts blank)
       (\<lambda>s. if \<not> truthy (manualMount s) then mount tn s else (None, s))"

definition DrawingBoard :: "engine \<Rightarrow> jsnum \<times> jsnum \<Rightarrow> options \<Rightarrow> board" where
  "DrawingBoard tn rect opts = snd (new_DrawingBoard tn rect opts)"

text \<open>
  \<^verbatim>\<open>reInit(options)\<close>: \<open>None\<close> stands for a call without options, which takes
  \<^verbatim>\<open>this.options\<close>.
\<close>

definition reInit ::
  "engine \<Rightarrow> jsnum \<times> jsnum \<Rightarrow> options option \<Rightarrow> board \<Rightarrow> exn option \<times> board" where
  "reInit tn rect given s =
     andThen (p_init tn rect (case given of None \<Rightarrow> options s | Some opts \<Rightarrow> opts) s)
       (mount tn)"

text \<open>
  The callbacks of the image loads. \<open>img\<close> is the loaded image and \<open>iw\<close>,
  \<open>ih\<close> are its \<^verbatim>\<open>width\<close> and \<^verbatim>\<open>height\<close>. An exception of \<^verbatim>\<open>_drawBg\<close> rejects
  the promise, and the handler of the rejection sets the image to \<^verbatim>\<open>null\<close>.
\<close>

definition settled :: "exn option \<times> board \<Rightarrow> board" where
  "settled r = (case fst r of None \<Rightarrow> snd r | Some e \<Rightarrow> (snd r)\<lparr>bgImgObject := JNull\<rparr>)"

definition initImageLoaded :: "engine \<Rightarrow> jsval \<Rightarrow> jsval \<Rightarrow> jsval \<Rightarrow> board \<Rightarrow> board" where
  "initImageLoaded tn img iw ih s =
     settled (p_drawBg tn img iw ih (s\<lparr>bgImgObject := img, originalSize := Some (iw, ih)\<rparr>))"

definition setBgImageLoaded ::
  "engine \<Rightarrow> jsval \<Rightarrow> jsval \<Rightarrow> jsval \<Rightarrow> jsval \<Rightarrow> jsval \<Rightarrow> board \<Rightarrow> board" where
  "setBgImageLoaded tn img iw ih originalWidth originalHeight s =
     settled (p_drawBg tn img (js_or originalWidth iw) (js_or originalHeight ih)
       (s\<lparr>bgImgObject := img,
          originalSize := Some (js_or originalWidth iw, js_or originalHeight ih)\<rparr>))"

definition imageLoadFailed :: "board \<Rightarrow> board" where
  "imageLoadFailed s = s\<lparr>bgImgObject := JNull\<rparr>"

section \<open>Sequences of operations\<close>

text \<open>
  What can happen to a board after its construction: a call of a public method, a
  pointer event delivered to a handler, or the settling of an image load. The
  export methods, \<^verbatim>\<open>setClassName\<close> and \<^verbatim>\<open>getPaintCount\<close> assign no field and are
  left out. An event or the result of a load may arrive in any state here, whether
  or not a listener is registered or a load is pending: the states of the program
  are among the states reached this way.
\<close>

datatype operation =
    Mount
  | PointerStart pevent
  | PointerMove pevent
  | PointerEnd
  | PointerLeave
  | PointerCancel
  | Revoke
  | Clear
  | Rotate jsval
  | SetSize jsval jsval
  | SetPenStyle jsval jsval
  | SetBgImg jsval jsval jsval
  | ReInit "jsnum \<times> jsnum" "options option"
  | Destory
  | InitImageLoaded jsval jsval jsval
  | SetBgImageLoaded jsval jsval jsval jsval jsval
  | ImageLoadFailed

definition step :: "engine \<Rightarrow> operation \<Rightarrow> board \<Rightarrow> exn option \<times> board" where
  "step tn x s =
     (case x of
        Mount \<Rightarrow> mount tn s
      | PointerStart e \<Rightarrow> p_handlePointerStart tn e s
      | PointerMove e \<Rightarrow> p_handlePointerMove tn e s
      | PointerEnd \<Rightarrow> (None, p_handlePointerEnd s)
      | PointerLeave \<Rightarrow> (None, p_handlePointerLeave s)
      | PointerCancel \<Rightarrow> (None, p_handlePointerCancel s)
      | Revoke \<Rightarrow> (None, revoke s)
      | Clear \<Rightarrow> clear tn s
      | Rotate d \<Rightarrow> rotate_board tn d s
      | SetSize w h \<Rightarrow> setSize tn w h s
      | SetPenStyle c w \<Rightarrow> (None, setPenStyle c w s)
      | SetBgImg u ow oh \<Rightarrow> setBgImg tn u ow oh s
      | ReInit rect given \<Rightarrow> reInit tn rect given s
      | Destory \<Rightarrow> destory s
      | InitImageLoaded i iw ih \<Rightarrow> (None, initImageLoaded tn i iw ih s)
      | SetBgImageLoaded i iw ih ow oh \<Rightarrow> (None, setBgImageLoaded tn i iw ih ow oh s)
      | ImageLoadFailed \<Rightarrow> (None, imageLoadFailed s))"

text \<open>
  A sequence of operations, each applied to the state the one before left; an
  exception ends the operation that threw it, not the sequence.
\<close>

fun run :: "engine \<Rightarrow> operation list \<Rightarrow> board \<Rightarrow> board" where
  "run tn [] s = s"
| "run tn (x # xs) s = run tn xs (snd (step tn x s))"

section \<open>Definitions used by the proofs\<close>

text \<open>One quarter turn of the rotation, as \<open>rotate_board\<close> computes it.\<close>

definition turn :: "jsval \<Rightarrow> jsnum \<Rightarrow> jsval" where
  "turn d r = p_getLawfulRotateAngle (JNum (js_add r (js_mul (numberOf d) (Fin 90))))"

text \<open>
  The invariant of the revoke stack: the effective maximum is a finite number
  above 0 and at most 50, and the stack holds less than one entry more than the
  maximum.
\<close>

definition boundInv :: "board \<Rightarrow> bool" where
  "boundInv s =
     (\<exists>m. MAX_REVOKE_STEPS s = Fin m \<and> 0 < m \<and> m \<le> 50
          \<and> rat_of_nat (length (revokeStack s)) < m + 1)"

text \<open>A stored dimension is unassigned or truthy.\<close>

definition sizeInv :: "board \<Rightarrow> bool" where
  "sizeInv s =
     ((width s = JUndefined \<or> truthy (width s))
      \<and> (height s = JUndefined \<or> truthy (height s)))"


definition shown :: "bitmap \<Rightarrow> nat \<Rightarrow> nat \<Rightarrow> colour" where
  "shown b x y = pixelAt (cv_content b) x y"


text \<open>
  Example boards and example strokes, for the evaluations below: a container of
  300 by 150 pixels, the default options with a callback for the revoke stack, and
  the same with a maximum of two revoke steps.
\<close>

definition exampleBoard :: board where
  "exampleBoard =
     DrawingBoard nonNumeric (Fin 300, Fin 150)
       (defaultOptions\<lparr>o_onRevokeStackChange := JFun (UserFn 0)\<rparr>)"

definition tightBoard :: board where
  "tightBoard =
     DrawingBoard nonNumeric (Fin 300, Fin 150)
       (defaultOptions\<lparr>o_maxRevokeSteps := JNum (Fin 2)\<rparr>)"

definition oneStroke :: "operation list" where
  "oneStroke =
     [PointerStart (MouseEvent (Fin 10) (Fin 10)),
      PointerMove (MouseEvent (Fin 20) (Fin 20)),
      PointerEnd]"

definition otherStroke :: "operation list" where
  "otherStroke =
     [PointerStart (MouseEvent (Fin 50) (Fin 60)),
      PointerMove (MouseEvent (Fin 70) (Fin 80)),
      PointerEnd]"

text \<open>
  The value of the local variable \<^verbatim>\<open>newAngle\<close> of \<^verbatim>\<open>_getLawfulRotateAngle\<close> at
  a finite input, and the value the function returns when the quotient of
  \<^verbatim>\<open>newAngle\<close> by 90 is rounded to the whole number \<open>c\<close>.
\<close>

definition newAngle_of :: "rat \<Rightarrow> jsnum" where
  "newAngle_of q =
     (if js_lt (js_rem (Fin q) (Fin 360)) (Fin 0)
      then js_add (js_rem (Fin q) (Fin 360)) (Fin 360)
      else js_rem (Fin q) (Fin 360))"

definition quarter :: "int \<Rightarrow> jsnum" where
  "quarter c = Math_abs (js_rem (js_mul (round_double (of_int c)) (Fin 90)) (Fin 360))"

text \<open>
  Whether the comparison \<^verbatim>\<open>steps <= 0\<close> of \<^verbatim>\<open>_getLawfulMaxRevokeSteps\<close> returns:
  it throws when the conversion of its operand throws.
\<close>

definition comparable :: "engine \<Rightarrow> jsval \<Rightarrow> bool" where
  "comparable tn v = (case le_number tn v (Fin 0) of Inl e \<Rightarrow> False | Inr b \<Rightarrow> True)"

text \<open>
  \<open>sameButSurface s t\<close>: the state \<open>t\<close> differs from \<open>s\<close> in the bitmap at most.
\<close>

definition sameButSurface :: "board \<Rightarrow> board \<Rightarrow> bool" where
  "sameButSurface s t = (t\<lparr>surface := surface s\<rparr> = s)"

text \<open>Entries of the revoke stack exist only on a board that has a context.\<close>

definition ctxInv :: "board \<Rightarrow> bool" where
  "ctxInv s = (revokeStack s = [] \<or> ctx s \<noteq> None)"

text \<open>
  Reading the bitmap with the stored dimensions returns the whole bitmap: the
  stored width and height convert to numbers, and these to positive 32-bit
  integers that are not below the dimensions of the bitmap; the bitmap is
  origin-clean and the engine allocates the pixel data.
\<close>

definition readsWholeSurface :: "engine \<Rightarrow> board \<Rightarrow> bool" where
  "readsWholeSurface tn s =
     (case longOf tn (width s) of
        Inl e \<Rightarrow> False
      | Inr sw \<Rightarrow>
          (case longOf tn (height s) of
             Inl e \<Rightarrow> False
           | Inr sh \<Rightarrow>
               0 < sw \<and> 0 < sh
               \<and> int (cv_width (surface s)) \<le> sw
               \<and> int (cv_height (surface s)) \<le> sh
               \<and> origin_clean (surface s)
               \<and> allocates tn (nat \<bar>sw\<bar>) (nat \<bar>sh\<bar>)))"

text \<open>The part of \<^verbatim>\<open>rotate\<close> that follows the call of \<^verbatim>\<open>setSize\<close>.\<close>

definition rotate_rest :: "engine \<Rightarrow> board \<Rightarrow> exn option \<times> board" where
  "rotate_rest tn s2 =
     (case originalSize s2 of
        None \<Rightarrow> (Some TypeError, s2)
      | Some (w, h) \<Rightarrow>
          andThen (p_drawBg tn (bgImgObject s2) w h s2)
            (\<lambda>s3. (None, s3\<lparr>paintCount := 0, revokeStack := []\<rparr>)))"


definition onePixel :: imagedata where
  "onePixel = \<lparr> id_width = 1, id_height = 1, id_content = Blank \<rparr>"

text \<open>The call \<^verbatim>\<open>setBgImg(image)\<close> with an image object, for the evaluations.\<close>

definition withBackground :: "operation list" where
  "withBackground = [SetBgImg (JObj 7) JUndefined JUndefined]"

section \<open>Rounding\<close>

text \<open>
  The number of binary digits bounds a positive number from below, so a rational
  below \<open>2 ^ 53\<close> has a binary exponent of at most 52.
\<close>

lemma bitlen_lower: "0 < n \<Longrightarrow> 2 ^ (bitlen n - 1) \<le> n"
proof (induction n rule: bitlen.induct)
  case (1 n)
  show ?case
  proof (cases "n div 2 = 0")
    case True
    then have "bitlen n = 1" using 1(2) by (simp add: bitlen.simps[of n] bitlen.simps[of 0])
    then show ?thesis using 1(2) by simp
  next
    case False
    then have h: "2 ^ (bitlen (n div 2) - 1) \<le> n div 2" using 1 by simp
    have pos: "0 < bitlen (n div 2)" using False by (simp add: bitlen.simps[of "n div 2"])
    have "bitlen n = Suc (bitlen (n div 2))" using 1(2) by (simp add: bitlen.simps[of n])
    then have "2 ^ (bitlen n - 1) = 2 * 2 ^ (bitlen (n div 2) - 1)"
      using pos by (cases "bitlen (n div 2)") simp_all
    also have "\<dots> \<le> 2 * (n div 2)" using h by simp
    also have "\<dots> \<le> n" by simp
    finally show ?thesis .
  qed
qed

lemma round_even_le_ceiling: "round_even q \<le> \<lceil>q\<rceil>"
  unfolding round_even_def by (auto; linarith)

lemma round_even_ge_floor: "\<lfloor>q\<rfloor> \<le> round_even q"
  unfolding round_even_def by auto

lemma binexp_small:
  assumes "x \<noteq> 0" and "\<bar>x\<bar> < 2 ^ 53"
  shows "binexp x \<le> 52"
proof (cases "1 \<le> \<bar>x\<bar>")
  case False
  then show ?thesis by (simp add: binexp_def)
next
  case True
  define n where "n = nat \<lfloor>\<bar>x\<bar>\<rfloor>"
  have n1: "0 < n" using True by (simp add: n_def)
  have "rat_of_nat n \<le> \<bar>x\<bar>" using True by (simp add: n_def)
  then have "rat_of_nat n < 2 ^ 53" using assms(2) by linarith
  then have "rat_of_nat n < rat_of_nat (2 ^ 53)" by simp
  then have "n < 2 ^ 53" by (simp only: of_nat_less_iff)
  moreover have "2 ^ (bitlen n - 1) \<le> n" using n1 by (rule bitlen_lower)
  ultimately have lt: "(2::nat) ^ (bitlen n - 1) < 2 ^ 53" by linarith
  have "bitlen n - 1 < 53"
  proof (rule ccontr)
    assume "\<not> bitlen n - 1 < 53"
    then have "53 \<le> bitlen n - 1" by simp
    then have "(2::nat) ^ 53 \<le> 2 ^ (bitlen n - 1)" by (rule power_increasing) simp
    with lt show False by linarith
  qed
  then show ?thesis using True by (simp add: binexp_def n_def[symmetric])
qed

text \<open>
  Rounding does not step over a whole number below \<open>2 ^ 53\<close>: such a number is a
  multiple of the unit in the last place of every smaller number.
\<close>

lemma round_double_upper:
  assumes "0 < x" and "x \<le> of_int B" and "B < 2 ^ 53"
  shows "\<exists>y. round_double x = Fin y \<and> 0 \<le> y \<and> y \<le> of_int B"
proof -
  define e where "e = max (binexp x) (- 1022)"
  define j where "j = nat (52 - e)"
  define m where "m = round_even (\<bar>x\<bar> / pow2 (e - 52))"
  have "rat_of_int B < rat_of_int (2 ^ 53)" using assms(3) by (simp only: of_int_less_iff)
  then have xb: "\<bar>x\<bar> < 2 ^ 53" using assms(1,2) by simp
  have e52: "e \<le> 52" using binexp_small[of x] assms(1) xb by (simp add: e_def)
  have u: "pow2 (e - 52) = 1 / 2 ^ j"
  proof (cases "e = 52")
    case True then show ?thesis by (simp add: pow2_def j_def)
  next
    case False
    then have "e - 52 < 0" using e52 by simp
    then show ?thesis by (simp add: pow2_def j_def)
  qed
  have q: "\<bar>x\<bar> / pow2 (e - 52) = x * 2 ^ j" using assms(1) by (simp add: u)
  have qpos: "0 \<le> x * 2 ^ j" using assms(1) by simp
  have qle: "x * 2 ^ j \<le> of_int (B * 2 ^ j)" using assms(2) by simp
  have f0: "0 \<le> \<lfloor>x * 2 ^ j\<rfloor>" using qpos by simp
  have "\<lfloor>x * 2 ^ j\<rfloor> \<le> m" using round_even_ge_floor[of "x * 2 ^ j"] by (simp add: m_def q)
  then have m0: "0 \<le> m" using f0 by linarith
  have "\<lceil>x * 2 ^ j\<rceil> \<le> B * 2 ^ j" using qle by (simp only: ceiling_le_iff)
  moreover have "m \<le> \<lceil>x * 2 ^ j\<rceil>"
    using round_even_le_ceiling[of "x * 2 ^ j"] by (simp add: m_def q)
  ultimately have mM: "m \<le> B * 2 ^ j" by linarith
  have no: "\<not> (1024 \<le> e \<or> (e = 1023 \<and> m = 2 ^ 53))" using e52 by simp
  have r: "round_double x = Fin (of_int m * pow2 (e - 52))"
    using assms(1) no unfolding round_double_def e_def[symmetric] Let_def m_def[symmetric]
    by simp
  have "rat_of_int m \<le> rat_of_int (B * 2 ^ j)" using mM by (simp only: of_int_le_iff)
  then have "rat_of_int m / 2 ^ j \<le> rat_of_int (B * 2 ^ j) / 2 ^ j"
    by (simp only: divide_right_mono zero_le_power zero_le_numeral)
  then have up: "rat_of_int m / 2 ^ j \<le> of_int B" by simp
  have lo: "0 \<le> rat_of_int m / 2 ^ j" using m0 by simp
  show ?thesis using r up lo by (simp add: u)
qed

lemma round_double_range:
  assumes "0 \<le> x" and "x \<le> of_int B" and "B < 2 ^ 53"
  shows "\<exists>y. round_double x = Fin y \<and> 0 \<le> y \<and> y \<le> of_int B"
proof (cases "x = 0")
  case True
  then show ?thesis using assms(2) by (simp add: round_double_def)
next
  case False
  then have "0 < x" using assms(1) by simp
  then show ?thesis using assms(2,3) by (rule round_double_upper)
qed

lemma binexp_neg: "binexp (- x) = binexp x"
  by (simp add: binexp_def)

lemma round_double_neg: "round_double (- x) = js_neg (round_double x)"
proof (cases "x = 0")
  case True
  then show ?thesis by (simp add: round_double_def)
next
  case False
  define e where "e = max (binexp x) (- 1022)"
  define m where "m = round_even (\<bar>x\<bar> / pow2 (e - 52))"
  define over where "over = (1024 \<le> e \<or> (e = 1023 \<and> m = 2 ^ 53))"
  have l: "round_double x =
             (if over then (if 0 < x then PInf else NInf)
              else Fin (sgn x * of_int m * pow2 (e - 52)))"
    using False unfolding round_double_def Let_def e_def[symmetric] m_def[symmetric] over_def
    by simp
  have r: "round_double (- x) =
             (if over then (if 0 < - x then PInf else NInf)
              else Fin (sgn (- x) * of_int m * pow2 (e - 52)))"
    using False
    unfolding round_double_def Let_def binexp_neg abs_minus_cancel e_def[symmetric]
      m_def[symmetric] over_def
    by simp
  show ?thesis unfolding l r using False by (cases "0 < x") auto
qed

lemma round_double_range_neg:
  assumes "- of_int B \<le> x" and "x \<le> 0" and "B < 2 ^ 53"
  shows "\<exists>y. round_double x = Fin y \<and> - of_int B \<le> y \<and> y \<le> 0"
proof -
  have "0 \<le> - x" "- x \<le> of_int B" using assms(1,2) by simp_all
  then obtain y where y: "round_double (- x) = Fin y" "0 \<le> y" "y \<le> of_int B"
    using round_double_range[of "- x" B] assms(3) by blast
  have "round_double x = js_neg (round_double (- x))"
    using round_double_neg[of "- x"] by simp
  then have "round_double x = Fin (- y)" using y(1) by simp
  then show ?thesis using y(2,3) by simp
qed

section \<open>Claim C7: the normalisation of angles\<close>

text \<open>The remainder of a division by a positive number, and its bounds.\<close>

lemma frem_nonneg: "0 \<le> a \<Longrightarrow> 0 < b \<Longrightarrow> frem a b = a - b * of_int \<lfloor>a / b\<rfloor>"
  by (simp add: frem_def truncq_def)

lemma frem_bounds_pos:
  assumes "0 < b" "0 \<le> a"
  shows "0 \<le> frem a b \<and> frem a b < b"
proof -
  have f: "frem a b = a - b * of_int \<lfloor>a / b\<rfloor>" using assms by (simp add: frem_nonneg)
  have 1: "of_int \<lfloor>a / b\<rfloor> \<le> a / b" by simp
  have 2: "a / b < of_int \<lfloor>a / b\<rfloor> + 1" by linarith
  from 1 assms(1) have "of_int \<lfloor>a / b\<rfloor> * b \<le> a"
    by (simp only: pos_le_divide_eq)
  moreover from 2 assms(1) have "a < (of_int \<lfloor>a / b\<rfloor> + 1) * b"
    by (simp only: pos_divide_less_eq)
  ultimately show ?thesis using f by (simp add: algebra_simps)
qed

lemma frem_bounds_neg:
  assumes "0 < b" "a < 0"
  shows "- b < frem a b \<and> frem a b \<le> 0"
proof -
  have neg: "a / b < 0" using assms by (simp add: divide_neg_pos)
  then have f: "frem a b = a - b * of_int \<lceil>a / b\<rceil>" by (simp add: frem_def truncq_def)
  have 1: "a / b \<le> of_int \<lceil>a / b\<rceil>" by simp
  have 2: "of_int \<lceil>a / b\<rceil> - 1 < a / b" by linarith
  from 1 assms(1) have "a \<le> of_int \<lceil>a / b\<rceil> * b"
    by (simp only: pos_divide_le_eq)
  moreover from 2 assms(1) have "(of_int \<lceil>a / b\<rceil> - 1) * b < a"
    by (simp only: pos_less_divide_eq)
  ultimately show ?thesis using f by (simp add: algebra_simps)
qed

text \<open>
  The variable \<^verbatim>\<open>newAngle\<close> is a finite number from 0 to 360. It can be 360: a
  negative remainder close to 0 plus 360 rounds to 360.
\<close>

lemma newAngle_range: "\<exists>n. newAngle_of q = Fin n \<and> 0 \<le> n \<and> n \<le> 360"
proof (cases "q < 0")
  case False
  then have "0 \<le> frem q 360" "frem q 360 \<le> of_int 360"
    using frem_bounds_pos[of 360 q] by simp_all
  then obtain t where t: "round_double (frem q 360) = Fin t" "0 \<le> t" "t \<le> of_int 360"
    using round_double_range[of "frem q 360" 360] by auto
  then show ?thesis by (simp add: newAngle_of_def)
next
  case True
  then have "- of_int 360 \<le> frem q 360" "frem q 360 \<le> 0"
    using frem_bounds_neg[of 360 q] by simp_all
  then obtain t where t: "round_double (frem q 360) = Fin t" "- of_int 360 \<le> t" "t \<le> 0"
    using round_double_range_neg[of 360 "frem q 360"] by auto
  show ?thesis
  proof (cases "t < 0")
    case False
    then have "t = 0" using t(3) by simp
    then show ?thesis using t(1) by (simp add: newAngle_of_def)
  next
    case True
    have "0 \<le> t + 360" "t + 360 \<le> of_int 360" using t(2) True by simp_all
    then obtain n where n: "round_double (t + 360) = Fin n" "0 \<le> n" "n \<le> of_int 360"
      using round_double_range[of "t + 360" 360] by auto
    then show ?thesis using t(1) True by (simp add: newAngle_of_def)
  qed
qed

lemma quarter_values:
  "quarter 0 = Fin 0" "quarter 1 = Fin 90" "quarter 2 = Fin 180" "quarter 3 = Fin 270"
  "quarter 4 = Fin 0"
  by code_simp+

lemma quarter_cases:
  assumes "0 \<le> c" and "c \<le> 4"
  shows "quarter c \<in> {Fin 0, Fin 90, Fin 180, Fin 270}"
proof -
  have "c = 0 \<or> c = 1 \<or> c = 2 \<or> c = 3 \<or> c = 4" using assms by arith
  then show ?thesis by (auto simp add: quarter_values)
qed

lemma lawful_fin_unfold:
  "p_getLawfulRotateAngle (JNum (Fin q)) =
     JNum (Math_abs
       (if js_ge (js_rem (newAngle_of q) (Fin 90)) (Fin 45)
        then js_rem (js_mul (Math_ceil (js_div (newAngle_of q) (Fin 90))) (Fin 90)) (Fin 360)
        else js_rem (js_mul (Math_floor (js_div (newAngle_of q) (Fin 90))) (Fin 90)) (Fin 360)))"
  by (simp add: p_getLawfulRotateAngle_def isNaN_def Let_def newAngle_of_def)

text \<open>
  At a finite angle the normalisation computes with finite numbers only, and its
  result is one of 0, 90, 180 and 270, whichever way the divisions round.
\<close>

lemma lawful_fin_cases:
  "p_getLawfulRotateAngle (JNum (Fin q)) \<in>
     {JNum (Fin 0), JNum (Fin 90), JNum (Fin 180), JNum (Fin 270)}"
proof -
  obtain n where n: "newAngle_of q = Fin n" "0 \<le> n" "n \<le> 360"
    using newAngle_range[of q] by blast
  have "0 \<le> n / 90" "n / 90 \<le> of_int 4" using n(2,3) by simp_all
  then obtain k where k: "round_double (n / 90) = Fin k" "0 \<le> k" "k \<le> of_int 4"
    using round_double_range[of "n / 90" 4] by auto
  have d: "js_div (newAngle_of q) (Fin 90) = Fin k" using n(1) k(1) by simp
  have fl: "0 \<le> \<lfloor>k\<rfloor>" "\<lfloor>k\<rfloor> \<le> 4" using k(2,3) by (simp_all add: floor_le_iff) 
  have ce: "0 \<le> \<lceil>k\<rceil>" "\<lceil>k\<rceil> \<le> 4" using k(2,3) by (simp_all add: ceiling_le_iff)
  have a: "Math_abs (js_rem (js_mul (Math_ceil (Fin k)) (Fin 90)) (Fin 360)) = quarter \<lceil>k\<rceil>"
    by (simp add: quarter_def)
  have b: "Math_abs (js_rem (js_mul (Math_floor (Fin k)) (Fin 90)) (Fin 360)) = quarter \<lfloor>k\<rfloor>"
    by (simp add: quarter_def)
  have "p_getLawfulRotateAngle (JNum (Fin q)) = JNum (quarter \<lceil>k\<rceil>)
        \<or> p_getLawfulRotateAngle (JNum (Fin q)) = JNum (quarter \<lfloor>k\<rfloor>)"
    unfolding lawful_fin_unfold d using a b by simp
  then show ?thesis using quarter_cases[OF ce] quarter_cases[OF fl] by auto
qed

lemma lawful_values:
  "p_getLawfulRotateAngle (JNum (Fin 0)) = JNum (Fin 0)"
  "p_getLawfulRotateAngle (JNum (Fin 90)) = JNum (Fin 90)"
  "p_getLawfulRotateAngle (JNum (Fin 180)) = JNum (Fin 180)"
  "p_getLawfulRotateAngle (JNum (Fin 270)) = JNum (Fin 270)"
  "p_getLawfulRotateAngle (JNum (Fin 360)) = JNum (Fin 0)"
  "p_getLawfulRotateAngle (JNum (Fin (- 90))) = JNum (Fin 270)"
  "p_getLawfulRotateAngle (JNum (Fin 450)) = JNum (Fin 90)"
  "p_getLawfulRotateAngle (JNum (Fin 10)) = JNum (Fin 0)"
  "p_getLawfulRotateAngle (JNum (Fin 55)) = JNum (Fin 90)"
  by code_simp+

text \<open>
  The rounding of the sum decides the result next to a boundary: the double next
  below -45 plus 360 rounds to 315, which is normalised to 0, where the exact sum
  is normalised to 270.
\<close>

lemma lawful_rounding_example:
  "round_double (- (45 + 1 / 2 ^ 47)) = Fin (- (45 + 1 / 2 ^ 47))"
  "p_getLawfulRotateAngle (JNum (Fin (- (45 + 1 / 2 ^ 47)))) = JNum (Fin 0)"
  by code_simp+

text \<open>
  Claim C7. At every finite number the normalisation of an angle is idempotent, and
  it sends -90 to 270, 450 to 90, 10 to 0 and 55 to 90.
\<close>

theorem normalizeAngle_idempotent:
  "p_getLawfulRotateAngle (p_getLawfulRotateAngle (JNum (Fin x))) =
     p_getLawfulRotateAngle (JNum (Fin x))
   \<and> p_getLawfulRotateAngle (JNum (Fin (- 90))) = JNum (Fin 270)
   \<and> p_getLawfulRotateAngle (JNum (Fin 450)) = JNum (Fin 90)
   \<and> p_getLawfulRotateAngle (JNum (Fin 10)) = JNum (Fin 0)
   \<and> p_getLawfulRotateAngle (JNum (Fin 55)) = JNum (Fin 90)"
  using lawful_fin_cases[of x] by (auto simp add: lawful_values)

section \<open>Claim C8: what the normalisation returns\<close>

text \<open>
  The guard of \<^verbatim>\<open>_getLawfulRotateAngle\<close> lets the two infinities through:
  \<^verbatim>\<open>typeof Infinity\<close> is \<^verbatim>\<open>'number'\<close> and \<^verbatim>\<open>isNaN(Infinity)\<close> is false. The
  remainder of an infinity is \<^verbatim>\<open>NaN\<close>, which the rest of the function hands on, so
  the result at an infinity is \<^verbatim>\<open>NaN\<close> and not \<^verbatim>\<open>undefined\<close>.
\<close>

theorem normalizeAngle_infinity_counterexample:
  "p_getLawfulRotateAngle (JNum PInf) = JNum NaN
   \<and> p_getLawfulRotateAngle (JNum PInf) \<noteq> JUndefined"
  by (simp add: p_getLawfulRotateAngle_def isNaN_def js_ge_def js_le_def)

text \<open>
  Claim C8, amended. The normalisation returns \<^verbatim>\<open>undefined\<close> for every value that
  is not a number and for \<^verbatim>\<open>NaN\<close>, it returns \<^verbatim>\<open>NaN\<close> for the two infinities,
  and for every finite number it returns a multiple of 90 in the range from 0
  (included) to 360 (excluded).
\<close>

theorem normalizeAngle_results:
  "(typeof v \<noteq> ''number'' \<longrightarrow> p_getLawfulRotateAngle v = JUndefined)
   \<and> p_getLawfulRotateAngle (JNum NaN) = JUndefined
   \<and> p_getLawfulRotateAngle (JNum PInf) = JNum NaN
   \<and> p_getLawfulRotateAngle (JNum NInf) = JNum NaN
   \<and> (\<exists>r. p_getLawfulRotateAngle (JNum (Fin x)) = JNum (Fin r)
          \<and> 0 \<le> r \<and> r < 360 \<and> (\<exists>k::int. r = 90 * of_int k))"
proof -
  have a: "typeof v \<noteq> ''number'' \<longrightarrow> p_getLawfulRotateAngle v = JUndefined"
    by (cases v) (simp_all add: typeof_def p_getLawfulRotateAngle_def)
  have b: "p_getLawfulRotateAngle (JNum NaN) = JUndefined"
    "p_getLawfulRotateAngle (JNum PInf) = JNum NaN"
    "p_getLawfulRotateAngle (JNum NInf) = JNum NaN"
    by (simp_all add: p_getLawfulRotateAngle_def isNaN_def js_ge_def js_le_def)
  have m: "\<exists>k::int. (0::rat) = 90 * of_int k" "\<exists>k::int. (90::rat) = 90 * of_int k"
    "\<exists>k::int. (180::rat) = 90 * of_int k" "\<exists>k::int. (270::rat) = 90 * of_int k"
    by (rule exI[of _ 0], simp, rule exI[of _ 1], simp, rule exI[of _ 2], simp,
        rule exI[of _ 3], simp)
  have c: "\<exists>r. p_getLawfulRotateAngle (JNum (Fin x)) = JNum (Fin r)
          \<and> 0 \<le> r \<and> r < 360 \<and> (\<exists>k::int. r = 90 * of_int k)"
    using lawful_fin_cases[of x] m by auto
  show ?thesis using a b c by blast
qed

text \<open>The theorem at the string \<^verbatim>\<open>'abc'\<close> and at the angle 55.\<close>

theorem normalizeAngle_results_witness:
  "typeof (JStr ''abc'') \<noteq> ''number''
   \<and> p_getLawfulRotateAngle (JStr ''abc'') = JUndefined
   \<and> p_getLawfulRotateAngle (JNum NaN) = JUndefined
   \<and> p_getLawfulRotateAngle (JNum PInf) = JNum NaN
   \<and> (\<exists>r. p_getLawfulRotateAngle (JNum (Fin 55)) = JNum (Fin r)
          \<and> 0 \<le> r \<and> r < 360 \<and> (\<exists>k::int. r = 90 * of_int k))"
  using normalizeAngle_results[of "JStr ''abc''" 55] by (simp add: typeof_def)

section \<open>Claim C6: the effective maximum of revoke steps\<close>

text \<open>
  \<^verbatim>\<open>_getLawfulMaxRevokeSteps\<close> returns a positive number that is at most 50 as it
  is, whole or not: the option 0.5 gives the maximum 0.5, which is below 1.
\<close>

theorem maxRevokeSteps_fraction_counterexample:
  "p_getLawfulMaxRevokeSteps nonNumeric (JNum (Fin (1 / 2))) = Inr (Fin (1 / 2))
   \<and> \<not> js_le (Fin 1) (Fin (1 / 2))"
  by (simp add: p_getLawfulMaxRevokeSteps_def le_number_def ToNumber_def js_le_def js_gt_def
      typeof_def isNaN_def numberOf_def)

lemma le_number_JNum [simp]: "le_number tn (JNum n) m = Inr (js_le n m)"
  by (simp add: le_number_def ToNumber_def)

lemma le_number_JStr [simp]: "le_number tn (JStr str) m = Inr (js_le (stringToNumber tn str) m)"
  by (simp add: le_number_def ToNumber_def)

lemma comparable_simps [simp]:
  "comparable tn (JNum n)" "comparable tn (JStr str)" "comparable tn JUndefined"
  "comparable tn JNull" "comparable tn (JBool b)" "comparable tn (JBigInt i)"
  "\<not> comparable tn (JSym k)"
  by (simp_all add: comparable_def le_number_def ToNumber_def)

lemma maxRevokeSteps_throws:
  "\<not> comparable tn v \<Longrightarrow> \<exists>e. p_getLawfulMaxRevokeSteps tn v = Inl e"
  by (auto simp add: comparable_def p_getLawfulMaxRevokeSteps_def split: sum.splits)

lemma maxRevokeSteps_not_number:
  "comparable tn v \<Longrightarrow> typeof v \<noteq> ''number'' \<Longrightarrow> p_getLawfulMaxRevokeSteps tn v = Inr (Fin 10)"
  by (auto simp add: comparable_def p_getLawfulMaxRevokeSteps_def split: sum.splits)

lemma maxRevokeSteps_number:
  "p_getLawfulMaxRevokeSteps tn (JNum n) =
     Inr (case n of
            Fin q \<Rightarrow> if q \<le> 0 then Fin 10 else if 50 < q then Fin 50 else Fin q
          | NaN \<Rightarrow> Fin 10
          | PInf \<Rightarrow> Fin 50
          | NInf \<Rightarrow> Fin 10)"
  by (cases n)
     (auto simp add: p_getLawfulMaxRevokeSteps_def js_le_def js_gt_def typeof_def
       isNaN_def numberOf_def)

lemma maxRevokeSteps_range:
  assumes "p_getLawfulMaxRevokeSteps tn v = Inr m"
  shows "\<exists>q. m = Fin q \<and> 0 < q \<and> q \<le> 50"
proof (cases "typeof v = ''number''")
  case True
  then obtain n where v: "v = JNum n" by (cases v) (simp_all add: typeof_def)
  show ?thesis using assms unfolding v maxRevokeSteps_number
    by (cases n) (auto split: if_splits)
next
  case False
  have "comparable tn v"
    using assms by (auto simp add: comparable_def p_getLawfulMaxRevokeSteps_def split: sum.splits)
  then show ?thesis using assms False by (auto simp add: maxRevokeSteps_not_number)
qed

lemma maxRevokeSteps_returns:
  assumes "comparable tn v"
  shows "\<exists>m. p_getLawfulMaxRevokeSteps tn v = Inr m"
proof -
  obtain b where "le_number tn v (Fin 0) = Inr b"
    using assms by (auto simp add: comparable_def split: sum.splits)
  then show ?thesis by (simp add: p_getLawfulMaxRevokeSteps_def)
qed

text \<open>
  Claim C6, amended. The comparison \<^verbatim>\<open>steps <= 0\<close> comes first: when it throws (a
  symbol, or an object whose conversion throws) the method throws. For every other
  configured value the effective maximum is a finite number above 0 and at most
  50, with the default 10: the values 0, -5, the string \<^verbatim>\<open>'abc'\<close> and \<^verbatim>\<open>NaN\<close>
  give 10, as does every such value that is not a number, every number that is not
  positive and \<^verbatim>\<open>-Infinity\<close>; 999, every number above 50 and \<^verbatim>\<open>Infinity\<close> give
  50; every positive number up to 50, whole or not, is kept unchanged.
\<close>

theorem maxRevokeSteps_clamped:
  "(\<not> comparable tn v \<longrightarrow> (\<exists>e. p_getLawfulMaxRevokeSteps tn v = Inl e))
   \<and> p_getLawfulMaxRevokeSteps tn (JSym i) = Inl TypeError
   \<and> (comparable tn v \<longrightarrow>
        (\<exists>q. p_getLawfulMaxRevokeSteps tn v = Inr (Fin q) \<and> 0 < q \<and> q \<le> 50))
   \<and> p_getLawfulMaxRevokeSteps tn (JNum (Fin 0)) = Inr (Fin 10)
   \<and> p_getLawfulMaxRevokeSteps tn (JNum (Fin (- 5))) = Inr (Fin 10)
   \<and> p_getLawfulMaxRevokeSteps tn (JStr ''abc'') = Inr (Fin 10)
   \<and> p_getLawfulMaxRevokeSteps tn (JNum NaN) = Inr (Fin 10)
   \<and> p_getLawfulMaxRevokeSteps tn (JNum (Fin 999)) = Inr (Fin 50)
   \<and> (comparable tn v \<and> typeof v \<noteq> ''number'' \<longrightarrow>
        p_getLawfulMaxRevokeSteps tn v = Inr (Fin 10))
   \<and> (x \<le> 0 \<longrightarrow> p_getLawfulMaxRevokeSteps tn (JNum (Fin x)) = Inr (Fin 10))
   \<and> p_getLawfulMaxRevokeSteps tn (JNum NInf) = Inr (Fin 10)
   \<and> (0 < x \<and> x \<le> 50 \<longrightarrow> p_getLawfulMaxRevokeSteps tn (JNum (Fin x)) = Inr (Fin x))
   \<and> (50 < x \<longrightarrow> p_getLawfulMaxRevokeSteps tn (JNum (Fin x)) = Inr (Fin 50))
   \<and> p_getLawfulMaxRevokeSteps tn (JNum PInf) = Inr (Fin 50)"
proof -
  have t: "\<not> comparable tn v \<longrightarrow> (\<exists>e. p_getLawfulMaxRevokeSteps tn v = Inl e)"
    by (simp add: maxRevokeSteps_throws)
  have sy: "p_getLawfulMaxRevokeSteps tn (JSym i) = Inl TypeError"
    by (simp add: p_getLawfulMaxRevokeSteps_def le_number_def ToNumber_def)
  have r: "comparable tn v \<longrightarrow>
        (\<exists>q. p_getLawfulMaxRevokeSteps tn v = Inr (Fin q) \<and> 0 < q \<and> q \<le> 50)"
  proof
    assume c: "comparable tn v"
    then obtain m where m: "p_getLawfulMaxRevokeSteps tn v = Inr m"
      using maxRevokeSteps_returns by blast
    then show "\<exists>q. p_getLawfulMaxRevokeSteps tn v = Inr (Fin q) \<and> 0 < q \<and> q \<le> 50"
      using maxRevokeSteps_range[OF m] by auto
  qed
  have s: "p_getLawfulMaxRevokeSteps tn (JStr ''abc'') = Inr (Fin 10)"
    by (simp add: maxRevokeSteps_not_number typeof_def)
  show ?thesis
    using t sy r s by (simp add: maxRevokeSteps_number maxRevokeSteps_not_number)
qed

text \<open>
  The theorem at the value \<^verbatim>\<open>true\<close> and at the number 7, and at a symbol, under
  the engine \<open>nonNumeric\<close>.
\<close>

theorem maxRevokeSteps_clamped_witness:
  "comparable nonNumeric (JBool True)
   \<and> typeof (JBool True) \<noteq> ''number''
   \<and> p_getLawfulMaxRevokeSteps nonNumeric (JBool True) = Inr (Fin 10)
   \<and> \<not> comparable nonNumeric (JSym 0)
   \<and> (\<exists>e. p_getLawfulMaxRevokeSteps nonNumeric (JSym 0) = Inl e)
   \<and> (0::rat) < 7 \<and> (7::rat) \<le> 50
   \<and> p_getLawfulMaxRevokeSteps nonNumeric (JNum (Fin 7)) = Inr (Fin 7)
   \<and> (50::rat) < 999
   \<and> p_getLawfulMaxRevokeSteps nonNumeric (JNum (Fin 999)) = Inr (Fin 50)
   \<and> (- 5::rat) \<le> 0
   \<and> p_getLawfulMaxRevokeSteps nonNumeric (JNum (Fin (- 5))) = Inr (Fin 10)"
  using maxRevokeSteps_clamped[of nonNumeric "JBool True" 0 7]
    maxRevokeSteps_clamped[of nonNumeric "JSym 0" 0 999]
    maxRevokeSteps_clamped[of nonNumeric "JSym 0" 0 "- 5"]
  by (simp add: typeof_def)

section \<open>Claim C9: the pen style\<close>

lemma color_test:
  "(truthy c \<and> typeof c = ''string'') = (\<exists>str. c = JStr str \<and> str \<noteq> [])"
  by (cases c) (auto simp add: truthy_def typeof_def)

lemma width_test:
  "(truthy w \<and> typeof w = ''number'' \<and> \<not> isNaN (numberOf w) \<and> js_gt (numberOf w) (Fin 0))
     = (w = JNum PInf \<or> (\<exists>q. w = JNum (Fin q) \<and> 0 < q))"
proof (cases w)
  case (JNum n)
  then show ?thesis
    by (cases n) (auto simp add: truthy_def typeof_def isNaN_def numberOf_def js_gt_def)
qed (auto simp add: truthy_def typeof_def)

text \<open>
  The test of the width has no test of finiteness: \<^verbatim>\<open>Infinity\<close> is truthy, a
  number, not \<^verbatim>\<open>NaN\<close> and greater than 0, and it replaces the width 6 of a board
  built with the default options.
\<close>

theorem setPenStyle_infinity_counterexample:
  "penWidth (DrawingBoard nonNumeric (Fin 300, Fin 150) defaultOptions) = JNum (Fin 6)
   \<and> penWidth (setPenStyle JUndefined (JNum PInf)
        (DrawingBoard nonNumeric (Fin 300, Fin 150) defaultOptions)) = JNum PInf"
  by code_simp

text \<open>
  Claim C9, amended. \<^verbatim>\<open>setPenStyle({ color, width })\<close> replaces the pen colour
  exactly when \<^verbatim>\<open>color\<close> is a non-empty string, and the pen width exactly when
  \<^verbatim>\<open>width\<close> is a number above 0, \<^verbatim>\<open>Infinity\<close> included; otherwise the field keeps
  its value. No other field changes, and the method throws nothing.
\<close>

theorem setPenStyle_updates:
  "penColor (setPenStyle color w s) =
     (if (\<exists>str. color = JStr str \<and> str \<noteq> []) then color else penColor s)
   \<and> penWidth (setPenStyle color w s) =
     (if w = JNum PInf \<or> (\<exists>q. w = JNum (Fin q) \<and> 0 < q) then w else penWidth s)
   \<and> (setPenStyle color w s)\<lparr>penColor := penColor s, penWidth := penWidth s\<rparr> = s"
proof -
  define cok where "cok = (\<exists>str. color = JStr str \<and> str \<noteq> [])"
  define wok where "wok = (w = JNum PInf \<or> (\<exists>q. w = JNum (Fin q) \<and> 0 < q))"
  have c: "(truthy color \<and> typeof color = ''string'') = cok"
    using color_test[of color] by (simp add: cok_def)
  have w: "(truthy w \<and> typeof w = ''number'' \<and> \<not> isNaN (numberOf w)
             \<and> js_gt (numberOf w) (Fin 0)) = wok"
    using width_test[of w] by (simp add: wok_def)
  have e: "setPenStyle color w s =
             (let s1 = (if cok then s\<lparr>penColor := color\<rparr> else s)
              in if wok then s1\<lparr>penWidth := w\<rparr> else s1)"
    unfolding setPenStyle_def c w ..
  show ?thesis
    unfolding cok_def[symmetric] wok_def[symmetric] e
    by (cases cok; cases wok; simp add: Let_def)
qed

section \<open>Claim C4: the handlers bound for an action\<close>

text \<open>
  \<^verbatim>\<open>_bindCurModeEvents\<close> builds the condition \<^verbatim>\<open>{ pointerType, action }\<close>, but
  \<^verbatim>\<open>_getEventItems\<close> reads \<^verbatim>\<open>mode\<close> from it, which the condition does not have.
  The pointer type never reaches the filter: for every mode the items selected are
  the items of the action, of both families.
\<close>

lemma getEventItems_ignores_pointerType:
  "a \<noteq> [] \<Longrightarrow>
   p_getEventItems [(''pointerType'', p_getPointerType mode), (''action'', JStr a)] evs
     = filter (\<lambda>item. getProp item ''action'' = JStr a) evs"
  by (auto simp add: p_getEventItems_def getProp_def truthy_def strict_eq_def Let_def
      intro!: filter_cong)

text \<open>
  Claim C4, evaluated in the mode \<^verbatim>\<open>'touch'\<close>: the items selected for the action
  \<^verbatim>\<open>'start'\<close> are \<^verbatim>\<open>mousedown\<close> and \<^verbatim>\<open>touchstart\<close>, and a board constructed in
  this mode has a listener for each of them.
\<close>

theorem bind_touch_mode_evaluation:
  "map (\<lambda>item. getProp item ''name'')
     (p_getEventItems
        [(''pointerType'', p_getPointerType (JStr ''touch'')), (''action'', JStr ''start'')]
        (mkEventList 1))
     = [JStr ''mousedown'', JStr ''touchstart'']
   \<and> listeners (DrawingBoard nonNumeric (Fin 300, Fin 150)
         (defaultOptions\<lparr>o_interactiveMode := JStr ''touch''\<rparr>))
     = [(0, JStr ''mousedown'', JFun (Bound HStart 1)),
        (0, JStr ''touchstart'', JFun (Bound HStart 1))]"
  by code_simp

section \<open>The fields an operation leaves unchanged\<close>

lemma snd_andThen: "snd (andThen r f) = (if fst r = None then snd (f (snd r)) else snd r)"
  by (cases r) (auto simp add: andThen_def split: option.split)

lemma fst_andThen: "fst (andThen r f) = (if fst r = None then fst (f (snd r)) else fst r)"
  by (cases r) (auto simp add: andThen_def split: option.split)

lemma andThen_preserves:
  assumes "P (snd r)" and "\<And>t. P t \<Longrightarrow> P (snd (f t))"
  shows "P (snd (andThen r f))"
  using assms by (simp add: snd_andThen)

lemma sameButSurface_refl [simp]: "sameButSurface s s"
  by (simp add: sameButSurface_def)

lemma sameButSurface_update [simp]: "sameButSurface s (s\<lparr>surface := b\<rparr>)"
  by (simp add: sameButSurface_def)

lemma sameButSurface_trans:
  "sameButSurface s t \<Longrightarrow> sameButSurface t u \<Longrightarrow> sameButSurface s u"
proof -
  assume a: "sameButSurface s t" and b: "sameButSurface t u"
  have "u\<lparr>surface := surface s\<rparr> = (u\<lparr>surface := surface t\<rparr>)\<lparr>surface := surface s\<rparr>" by simp
  also have "\<dots> = t\<lparr>surface := surface s\<rparr>" using b by (simp only: sameButSurface_def)
  also have "\<dots> = s" using a by (simp only: sameButSurface_def)
  finally show ?thesis by (simp only: sameButSurface_def)
qed

lemma sameButSurface_fields:
  assumes "sameButSurface s t"
  shows "ctx t = ctx s" "el t = el s" "revokeStack t = revokeStack s"
    "MAX_REVOKE_STEPS t = MAX_REVOKE_STEPS s" "paintCount t = paintCount s"
    "width t = width s" "height t = height s" "bgImgRotate t = bgImgRotate s"
    "originalSize t = originalSize s" "callbackLog t = callbackLog s"
    "bgImgObject t = bgImgObject s" "onRevokeStackChange t = onRevokeStackChange s"
    "isPainting t = isPainting s" "lastPoint t = lastPoint s" "penWidth t = penWidth s"
    "penColor t = penColor s" "interactiveMode t = interactiveMode s"
    "eventList t = eventList s" "listeners t = listeners s" "className t = className s"
proof -
  have h: "s = t\<lparr>surface := surface s\<rparr>" using assms by (simp add: sameButSurface_def)
  show "ctx t = ctx s" by (subst h) simp
  show "el t = el s" by (subst h) simp
  show "revokeStack t = revokeStack s" by (subst h) simp
  show "MAX_REVOKE_STEPS t = MAX_REVOKE_STEPS s" by (subst h) simp
  show "paintCount t = paintCount s" by (subst h) simp
  show "width t = width s" by (subst h) simp
  show "height t = height s" by (subst h) simp
  show "bgImgRotate t = bgImgRotate s" by (subst h) simp
  show "originalSize t = originalSize s" by (subst h) simp
  show "callbackLog t = callbackLog s" by (subst h) simp
  show "bgImgObject t = bgImgObject s" by (subst h) simp
  show "onRevokeStackChange t = onRevokeStackChange s" by (subst h) simp
  show "isPainting t = isPainting s" by (subst h) simp
  show "lastPoint t = lastPoint s" by (subst h) simp
  show "penWidth t = penWidth s" by (subst h) simp
  show "penColor t = penColor s" by (subst h) simp
  show "interactiveMode t = interactiveMode s" by (subst h) simp
  show "eventList t = eventList s" by (subst h) simp
  show "listeners t = listeners s" by (subst h) simp
  show "className t = className s" by (subst h) simp
qed

lemma sameButSurface_andThen:
  assumes "sameButSurface s (snd r)" and "\<And>t. sameButSurface t (snd (f t))"
  shows "sameButSurface s (snd (andThen r f))"
  using assms sameButSurface_trans by (auto simp add: snd_andThen)

lemma assignDim_same: "sameButSurface s (snd (assignDim tn f v s))"
  by (simp add: assignDim_def split: sum.split)

lemma p_setDOMSize_same: "sameButSurface s (snd (p_setDOMSize tn w h s))"
  unfolding p_setDOMSize_def by (rule sameButSurface_andThen) (rule assignDim_same)+

lemma p_drawCircle_same: "sameButSurface s (snd (p_drawCircle x y r c s))"
  by (simp add: p_drawCircle_def Let_def)

lemma p_drawLine_same: "sameButSurface s (snd (p_drawLine tn x1 y1 x2 y2 w c s))"
  by (simp add: p_drawLine_def Let_def split: sum.split)

lemma p_drawBg_same: "sameButSurface s (snd (p_drawBg tn i w h s))"
  by (simp add: p_drawBg_def Let_def split: sum.split option.split)

lemmas assignDim_fields [simp] = sameButSurface_fields[OF assignDim_same]
lemmas p_setDOMSize_fields [simp] = sameButSurface_fields[OF p_setDOMSize_same]
lemmas p_drawCircle_fields [simp] = sameButSurface_fields[OF p_drawCircle_same]
lemmas p_drawLine_fields [simp] = sameButSurface_fields[OF p_drawLine_same]
lemmas p_drawBg_fields [simp] = sameButSurface_fields[OF p_drawBg_same]

lemma p_bindEvent_fields [simp]:
  "ctx (p_bindEvent c s) = ctx s"
  "el (p_bindEvent c s) = el s"
  "surface (p_bindEvent c s) = surface s"
  "revokeStack (p_bindEvent c s) = revokeStack s"
  "MAX_REVOKE_STEPS (p_bindEvent c s) = MAX_REVOKE_STEPS s"
  "interactiveMode (p_bindEvent c s) = interactiveMode s"
  "width (p_bindEvent c s) = width s"
  "height (p_bindEvent c s) = height s"
  "paintCount (p_bindEvent c s) = paintCount s"
  by (simp_all add: p_bindEvent_def split: option.split)

lemma p_cleanEvent_fields [simp]:
  "ctx (p_cleanEvent c s) = ctx s"
  "el (p_cleanEvent c s) = el s"
  "surface (p_cleanEvent c s) = surface s"
  "revokeStack (p_cleanEvent c s) = revokeStack s"
  "MAX_REVOKE_STEPS (p_cleanEvent c s) = MAX_REVOKE_STEPS s"
  "interactiveMode (p_cleanEvent c s) = interactiveMode s"
  "width (p_cleanEvent c s) = width s"
  "height (p_cleanEvent c s) = height s"
  "paintCount (p_cleanEvent c s) = paintCount s"
  by (simp_all add: p_cleanEvent_def split: option.split)

lemma p_cleanCurModeEvents_fields [simp]:
  "ctx (p_cleanCurModeEvents a s) = ctx s"
  "el (p_cleanCurModeEvents a s) = el s"
  "surface (p_cleanCurModeEvents a s) = surface s"
  "revokeStack (p_cleanCurModeEvents a s) = revokeStack s"
  "MAX_REVOKE_STEPS (p_cleanCurModeEvents a s) = MAX_REVOKE_STEPS s"
  "interactiveMode (p_cleanCurModeEvents a s) = interactiveMode s"
  "width (p_cleanCurModeEvents a s) = width s"
  "height (p_cleanCurModeEvents a s) = height s"
  "paintCount (p_cleanCurModeEvents a s) = paintCount s"
  by (simp_all add: p_cleanCurModeEvents_def Let_def)

lemma p_bindCurModeEvents_fields [simp]:
  "ctx (p_bindCurModeEvents a s) = ctx s"
  "el (p_bindCurModeEvents a s) = el s"
  "surface (p_bindCurModeEvents a s) = surface s"
  "revokeStack (p_bindCurModeEvents a s) = revokeStack s"
  "MAX_REVOKE_STEPS (p_bindCurModeEvents a s) = MAX_REVOKE_STEPS s"
  "width (p_bindCurModeEvents a s) = width s"
  "height (p_bindCurModeEvents a s) = height s"
  "paintCount (p_bindCurModeEvents a s) = paintCount s"
  by (simp_all add: p_bindCurModeEvents_def Let_def)

lemma setSize_fields [simp]:
  "ctx (snd (setSize tn w h s)) = ctx s"
  "el (snd (setSize tn w h s)) = el s"
  "revokeStack (snd (setSize tn w h s)) = revokeStack s"
  "MAX_REVOKE_STEPS (snd (setSize tn w h s)) = MAX_REVOKE_STEPS s"
  "paintCount (snd (setSize tn w h s)) = paintCount s"
  "width (snd (setSize tn w h s)) = (if truthy w then w else width s)"
  "height (snd (setSize tn w h s)) = (if truthy h then h else height s)"
  "bgImgRotate (snd (setSize tn w h s)) = bgImgRotate s"
  "originalSize (snd (setSize tn w h s)) = originalSize s"
  "callbackLog (snd (setSize tn w h s)) = callbackLog s"
  "bgImgObject (snd (setSize tn w h s)) = bgImgObject s"
  by (simp_all add: setSize_def)

lemma setPenStyle_fields [simp]:
  "ctx (setPenStyle c w s) = ctx s"
  "el (setPenStyle c w s) = el s"
  "surface (setPenStyle c w s) = surface s"
  "revokeStack (setPenStyle c w s) = revokeStack s"
  "MAX_REVOKE_STEPS (setPenStyle c w s) = MAX_REVOKE_STEPS s"
  "width (setPenStyle c w s) = width s"
  "height (setPenStyle c w s) = height s"
  by (simp_all add: setPenStyle_def Let_def)

lemma p_saveImageData_fields [simp]:
  "ctx (p_saveImageData ty pc img s) = ctx s"
  "el (p_saveImageData ty pc img s) = el s"
  "MAX_REVOKE_STEPS (p_saveImageData ty pc img s) = MAX_REVOKE_STEPS s"
  "surface (p_saveImageData ty pc img s) = surface s"
  "paintCount (p_saveImageData ty pc img s) = paintCount s"
  "width (p_saveImageData ty pc img s) = width s"
  "height (p_saveImageData ty pc img s) = height s"
  "bgImgObject (p_saveImageData ty pc img s) = bgImgObject s"
  "originalSize (p_saveImageData ty pc img s) = originalSize s"
  "bgImgRotate (p_saveImageData ty pc img s) = bgImgRotate s"
  "penWidth (p_saveImageData ty pc img s) = penWidth s"
  "penColor (p_saveImageData ty pc img s) = penColor s"
  by (simp_all add: p_saveImageData_def Let_def)

lemma p_revoke_fields [simp]:
  "ctx (p_revoke s) = ctx s"
  "el (p_revoke s) = el s"
  "MAX_REVOKE_STEPS (p_revoke s) = MAX_REVOKE_STEPS s"
  "width (p_revoke s) = width s"
  "height (p_revoke s) = height s"
  by (simp_all add: p_revoke_def Let_def)

lemma setClassName_fields [simp]: "snd (setClassName tn n s) = s"
  by (simp add: setClassName_def)

lemma mount_fields [simp]:
  "revokeStack (snd (mount tn s)) = revokeStack s"
  "MAX_REVOKE_STEPS (snd (mount tn s)) = MAX_REVOKE_STEPS s"
  "width (snd (mount tn s)) = width s"
  "height (snd (mount tn s)) = height s"
  by (simp_all add: mount_def Let_def snd_andThen)

lemma setBgImg_fields [simp]:
  "ctx (snd (setBgImg tn u ow oh s)) = ctx s"
  "revokeStack (snd (setBgImg tn u ow oh s)) = revokeStack s"
  "MAX_REVOKE_STEPS (snd (setBgImg tn u ow oh s)) = MAX_REVOKE_STEPS s"
  "width (snd (setBgImg tn u ow oh s)) = width s"
  "height (snd (setBgImg tn u ow oh s)) = height s"
  by (simp_all add: setBgImg_def Let_def)

lemma settled_fields [simp]:
  "ctx (settled r) = ctx (snd r)"
  "revokeStack (settled r) = revokeStack (snd r)"
  "MAX_REVOKE_STEPS (settled r) = MAX_REVOKE_STEPS (snd r)"
  "width (settled r) = width (snd r)"
  "height (settled r) = height (snd r)"
  by (simp_all add: settled_def split: option.split)

lemma imageLoaded_fields [simp]:
  "ctx (initImageLoaded tn i iw ih s) = ctx s"
  "revokeStack (initImageLoaded tn i iw ih s) = revokeStack s"
  "MAX_REVOKE_STEPS (initImageLoaded tn i iw ih s) = MAX_REVOKE_STEPS s"
  "width (initImageLoaded tn i iw ih s) = width s"
  "height (initImageLoaded tn i iw ih s) = height s"
  "ctx (setBgImageLoaded tn i iw ih ow oh s) = ctx s"
  "revokeStack (setBgImageLoaded tn i iw ih ow oh s) = revokeStack s"
  "MAX_REVOKE_STEPS (setBgImageLoaded tn i iw ih ow oh s) = MAX_REVOKE_STEPS s"
  "width (setBgImageLoaded tn i iw ih ow oh s) = width s"
  "height (setBgImageLoaded tn i iw ih ow oh s) = height s"
  "ctx (imageLoadFailed s) = ctx s"
  "revokeStack (imageLoadFailed s) = revokeStack s"
  "MAX_REVOKE_STEPS (imageLoadFailed s) = MAX_REVOKE_STEPS s"
  "width (imageLoadFailed s) = width s"
  "height (imageLoadFailed s) = height s"
  by (simp_all add: initImageLoaded_def setBgImageLoaded_def imageLoadFailed_def)

lemma destory_fields [simp]:
  "ctx (snd (destory s)) = ctx s"
  "revokeStack (snd (destory s)) = revokeStack s"
  "MAX_REVOKE_STEPS (snd (destory s)) = MAX_REVOKE_STEPS s"
  "width (snd (destory s)) = width s"
  "height (snd (destory s)) = height s"
  by (simp_all add: destory_def)

section \<open>Claim C5: four quarter turns\<close>

lemma rotate_board_unfold:
  "rotate_board tn d s =
     (if \<not> arr_includes [JNum (Fin 1), JNum (Fin (- 1))] (if d = JUndefined then JNum (Fin 1) else d)
      then (None, s)
      else case ToNumber tn (bgImgRotate s) of
             Inl e \<Rightarrow> (Some e, s)
           | Inr r \<Rightarrow>
               andThen
                 (setSize tn (height s) (width s)
                    (s\<lparr>bgImgRotate := turn (if d = JUndefined then JNum (Fin 1) else d) r\<rparr>))
                 (rotate_rest tn))"
proof -
  have "rotate_rest tn = (\<lambda>s2. case originalSize s2 of
                          None \<Rightarrow> (Some TypeError, s2)
                        | Some (w, h) \<Rightarrow>
                            andThen (p_drawBg tn (bgImgObject s2) w h s2)
                              (\<lambda>s3. (None, s3\<lparr>paintCount := 0, revokeStack := []\<rparr>)))"
    by (rule ext) (simp add: rotate_rest_def)
  then show ?thesis
    by (simp add: rotate_board_def Let_def turn_def split: sum.split)
qed

lemma rotate_rest_fields [simp]:
  "bgImgRotate (snd (rotate_rest tn t)) = bgImgRotate t"
  "width (snd (rotate_rest tn t)) = width t"
  "height (snd (rotate_rest tn t)) = height t"
  "ctx (snd (rotate_rest tn t)) = ctx t"
  "MAX_REVOKE_STEPS (snd (rotate_rest tn t)) = MAX_REVOKE_STEPS t"
  "callbackLog (snd (rotate_rest tn t)) = callbackLog t"
  by (simp_all add: rotate_rest_def snd_andThen split: option.split prod.split)

lemma rotate_board_fields:
  assumes "d = JNum (Fin 1) \<or> d = JNum (Fin (- 1))" and "bgImgRotate s = JNum r"
  shows "bgImgRotate (snd (rotate_board tn d s)) = turn d r"
    and "width (snd (rotate_board tn d s)) = (if truthy (height s) then height s else width s)"
    and "height (snd (rotate_board tn d s)) = (if truthy (width s) then width s else height s)"
proof -
  have inc: "arr_includes [JNum (Fin 1), JNum (Fin (- 1))] d"
    using assms(1) by (auto simp add: arr_includes_def)
  have nu: "d \<noteq> JUndefined" using assms(1) by auto
  have tn: "ToNumber tn (bgImgRotate s) = Inr r" using assms(2) by (simp add: ToNumber_def)
  have e: "rotate_board tn d s =
             andThen (setSize tn (height s) (width s) (s\<lparr>bgImgRotate := turn d r\<rparr>))
               (rotate_rest tn)"
    using inc nu tn by (simp add: rotate_board_unfold)
  show "bgImgRotate (snd (rotate_board tn d s)) = turn d r"
    by (simp add: e snd_andThen)
  show "width (snd (rotate_board tn d s)) = (if truthy (height s) then height s else width s)"
    by (simp add: e snd_andThen)
  show "height (snd (rotate_board tn d s)) = (if truthy (width s) then width s else height s)"
    by (simp add: e snd_andThen)
qed

lemma turn_values:
  "turn (JNum (Fin 1)) (Fin 0) = JNum (Fin 90)"
  "turn (JNum (Fin 1)) (Fin 90) = JNum (Fin 180)"
  "turn (JNum (Fin 1)) (Fin 180) = JNum (Fin 270)"
  "turn (JNum (Fin 1)) (Fin 270) = JNum (Fin 0)"
  "turn (JNum (Fin (- 1))) (Fin 0) = JNum (Fin 270)"
  "turn (JNum (Fin (- 1))) (Fin 90) = JNum (Fin 0)"
  "turn (JNum (Fin (- 1))) (Fin 180) = JNum (Fin 90)"
  "turn (JNum (Fin (- 1))) (Fin 270) = JNum (Fin 180)"
  by code_simp+


lemma rotate_rotation:
  assumes "d = JNum (Fin 1) \<or> d = JNum (Fin (- 1))" and "bgImgRotate s = JNum (Fin r)"
    and "r = 0 \<or> r = 90 \<or> r = 180 \<or> r = 270"
  shows "bgImgRotate (snd (rotate_board tn d s)) =
           JNum (Fin (if d = JNum (Fin 1) then (if r = 270 then 0 else r + 90)
                      else (if r = 0 then 270 else r - 90)))"
  using assms(1,3) by (auto simp add: rotate_board_fields(1)[OF assms(1,2)] turn_values)

text \<open>
  In every state of a board each of the two stored dimensions is unassigned or
  truthy: \<^verbatim>\<open>setSize\<close> is the only method that assigns them.
\<close>

lemma handler_sizes [simp]:
  "width (snd (p_handlePointerStart tn e s)) = width s"
  "height (snd (p_handlePointerStart tn e s)) = height s"
  "width (snd (p_handlePointerMove tn e s)) = width s"
  "height (snd (p_handlePointerMove tn e s)) = height s"
  "width (p_handlePointerEnd s) = width s"
  "height (p_handlePointerEnd s) = height s"
  by (simp_all add: p_handlePointerStart_def p_handlePointerMove_def p_handlePointerEnd_def
      Let_def snd_andThen split: sum.split option.split prod.split)

lemma clear_sizes [simp]:
  "width (snd (clear tn s)) = width s"
  "height (snd (clear tn s)) = height s"
  by (simp_all add: clear_def Let_def split: sum.split option.split prod.split)

lemma sizeInv_setSize: "sizeInv s \<Longrightarrow> sizeInv (snd (setSize tn w h s))"
  by (simp add: sizeInv_def)

lemma sizeInv_rotate: "sizeInv s \<Longrightarrow> sizeInv (snd (rotate_board tn d s))"
proof -
  assume a: "sizeInv s"
  have k: "sizeInv t \<Longrightarrow> sizeInv (snd (rotate_rest tn t))" for t
    by (simp add: sizeInv_def)
  have b: "sizeInv (s\<lparr>bgImgRotate := v\<rparr>)" for v using a by (simp add: sizeInv_def)
  have c: "sizeInv (snd (andThen (setSize tn (height s) (width s) (s\<lparr>bgImgRotate := v\<rparr>))
                           (rotate_rest tn)))" for v
    by (rule andThen_preserves[where P = sizeInv], rule sizeInv_setSize, rule b, rule k)
  show ?thesis
    unfolding rotate_board_unfold using a c by (simp split: sum.split)
qed

lemma sizeInv_p_init: "sizeInv s \<Longrightarrow> sizeInv (snd (p_init tn rect opts s))"
proof -
  assume a: "sizeInv s"
  have b: "sizeInv (s\<lparr>options := opts\<rparr>)" using a by (simp add: sizeInv_def)
  show ?thesis
    unfolding p_init_def Let_def
    by (rule andThen_preserves[where P = sizeInv], rule sizeInv_setSize, rule b)
       (simp add: sizeInv_def split: sum.split)
qed

lemma sizeInv_mount: "sizeInv s \<Longrightarrow> sizeInv (snd (mount tn s))"
  by (simp add: sizeInv_def)

lemma sizeInv_step: "sizeInv s \<Longrightarrow> sizeInv (snd (step tn x s))"
proof (cases x)
  case (Rotate d)
  assume "sizeInv s"
  then show ?thesis using Rotate by (simp add: step_def sizeInv_rotate)
next
  case (ReInit rect given)
  assume "sizeInv s"
  then show ?thesis using ReInit
    by (auto simp add: step_def reInit_def intro!: andThen_preserves[where P = sizeInv]
        sizeInv_p_init sizeInv_mount)
next
  case (SetSize w h)
  assume "sizeInv s"
  then show ?thesis using SetSize by (simp add: step_def sizeInv_setSize)
qed (simp_all add: step_def sizeInv_def p_handlePointerLeave_def p_handlePointerCancel_def
      revoke_def)

lemma sizeInv_run: "sizeInv s \<Longrightarrow> sizeInv (run tn xs s)"
  by (induction xs arbitrary: s) (simp_all add: sizeInv_step)

lemma sizeInv_DrawingBoard: "sizeInv (DrawingBoard tn rect opts)"
proof -
  have b: "sizeInv blank" by (simp add: sizeInv_def blank_def)
  show ?thesis
    unfolding DrawingBoard_def new_DrawingBoard_def
    by (rule andThen_preserves[where P = sizeInv], rule sizeInv_p_init, rule b)
       (simp add: sizeInv_mount)
qed

lemma stored_sizes_truthy: "sizeInv (run tn xs (DrawingBoard tn rect opts))"
  by (simp add: sizeInv_run sizeInv_DrawingBoard)

text \<open>
  \<^verbatim>\<open>rotate\<close> swaps the two dimensions with \<^verbatim>\<open>setSize([this.height, this.width])\<close>,
  and \<^verbatim>\<open>setSize\<close> assigns a dimension only when the new value is truthy. A board
  whose container has the height 0 is constructed with \<^verbatim>\<open>this.height\<close> unassigned;
  the first turn copies the width 300 into the height and leaves the width, and
  after four turns the height is 300.
\<close>

theorem rotate_unset_height_counterexample:
  "height (DrawingBoard nonNumeric (Fin 300, Fin 0) defaultOptions) = JUndefined
   \<and> height (run nonNumeric
        [Rotate (JNum (Fin 1)), Rotate (JNum (Fin 1)), Rotate (JNum (Fin 1)), Rotate (JNum (Fin 1))]
        (DrawingBoard nonNumeric (Fin 300, Fin 0) defaultOptions)) = JNum (Fin 300)"
  by code_simp

text \<open>
  Claim C5, amended. For every starting rotation among 0, 90, 180 and 270 and every
  starting width and height that are both assigned (truthy, as every value that
  \<^verbatim>\<open>setSize\<close> stores is), four calls of \<^verbatim>\<open>rotate\<close> in a row with the same valid
  direction, 1 or -1, leave the rotation, the width and the height at their
  starting values. This holds whether or not the calls throw (see claim C10).
\<close>

theorem rotate_four_times:
  assumes "d = JNum (Fin 1) \<or> d = JNum (Fin (- 1))"
    and "bgImgRotate s = JNum (Fin 0) \<or> bgImgRotate s = JNum (Fin 90)
         \<or> bgImgRotate s = JNum (Fin 180) \<or> bgImgRotate s = JNum (Fin 270)"
    and "truthy (width s)" and "truthy (height s)"
  shows "bgImgRotate (run tn [Rotate d, Rotate d, Rotate d, Rotate d] s) = bgImgRotate s
         \<and> width (run tn [Rotate d, Rotate d, Rotate d, Rotate d] s) = width s
         \<and> height (run tn [Rotate d, Rotate d, Rotate d, Rotate d] s) = height s"
proof -
  define s1 where "s1 = snd (rotate_board tn d s)"
  define s2 where "s2 = snd (rotate_board tn d s1)"
  define s3 where "s3 = snd (rotate_board tn d s2)"
  define s4 where "s4 = snd (rotate_board tn d s3)"
  have r: "run tn [Rotate d, Rotate d, Rotate d, Rotate d] s = s4"
    by (simp add: step_def s1_def s2_def s3_def s4_def)
  obtain r0 where r0: "bgImgRotate s = JNum (Fin r0)" "r0 = 0 \<or> r0 = 90 \<or> r0 = 180 \<or> r0 = 270"
    using assms(2) by auto
  define nxt where "nxt = (\<lambda>q::rat. if d = JNum (Fin 1) then (if q = 270 then 0 else q + 90)
                      else (if q = 0 then 270 else q - 90))"
  have q: "q = 0 \<or> q = 90 \<or> q = 180 \<or> q = 270 \<Longrightarrow>
           nxt q = 0 \<or> nxt q = 90 \<or> nxt q = 180 \<or> nxt q = 270" for q
    by (auto simp add: nxt_def)
  have st: "bgImgRotate t = JNum (Fin q) \<Longrightarrow> q = 0 \<or> q = 90 \<or> q = 180 \<or> q = 270 \<Longrightarrow>
            bgImgRotate (snd (rotate_board tn d t)) = JNum (Fin (nxt q))" for t q
    using rotate_rotation[OF assms(1), of t q tn] by (simp add: nxt_def)
  note v0 = r0(2)
  note v1 = q[OF v0]
  note v2 = q[OF v1]
  note v3 = q[OF v2]
  have b1: "bgImgRotate s1 = JNum (Fin (nxt r0))" unfolding s1_def by (rule st[OF r0])
  have b2: "bgImgRotate s2 = JNum (Fin (nxt (nxt r0)))"
    unfolding s2_def by (rule st[OF b1 v1])
  have b3: "bgImgRotate s3 = JNum (Fin (nxt (nxt (nxt r0))))"
    unfolding s3_def by (rule st[OF b2 v2])
  have b4: "bgImgRotate s4 = JNum (Fin (nxt (nxt (nxt (nxt r0)))))"
    unfolding s4_def by (rule st[OF b3 v3])
  have home: "nxt (nxt (nxt (nxt r0))) = r0" using r0(2) assms(1) by (auto simp add: nxt_def)
  note c1 = b1[unfolded s1_def]
  note c2 = b2[unfolded s2_def s1_def]
  note c3 = b3[unfolded s3_def s2_def s1_def]
  note f1 = rotate_board_fields(2,3)[OF assms(1) r0(1)]
  note f2 = rotate_board_fields(2,3)[OF assms(1) c1]
  note f3 = rotate_board_fields(2,3)[OF assms(1) c2]
  note f4 = rotate_board_fields(2,3)[OF assms(1) c3]
  have w4: "width s4 = width s" "height s4 = height s"
    using assms(3,4) by (simp_all add: s4_def s3_def s2_def s1_def f1 f2 f3 f4)
  show ?thesis using r w4 b4 home r0(1) by simp
qed

text \<open>The theorem at a board of 300 by 150 pixels, turned clockwise.\<close>

theorem rotate_four_times_witness:
  "bgImgRotate (DrawingBoard nonNumeric (Fin 300, Fin 150) defaultOptions) = JNum (Fin 0)
   \<and> truthy (width (DrawingBoard nonNumeric (Fin 300, Fin 150) defaultOptions))
   \<and> truthy (height (DrawingBoard nonNumeric (Fin 300, Fin 150) defaultOptions))
   \<and> bgImgRotate (run nonNumeric
        [Rotate (JNum (Fin 1)), Rotate (JNum (Fin 1)), Rotate (JNum (Fin 1)), Rotate (JNum (Fin 1))]
        (DrawingBoard nonNumeric (Fin 300, Fin 150) defaultOptions)) = JNum (Fin 0)
   \<and> width (run nonNumeric
        [Rotate (JNum (Fin 1)), Rotate (JNum (Fin 1)), Rotate (JNum (Fin 1)), Rotate (JNum (Fin 1))]
        (DrawingBoard nonNumeric (Fin 300, Fin 150) defaultOptions)) = JNum (Fin 300)
   \<and> height (run nonNumeric
        [Rotate (JNum (Fin 1)), Rotate (JNum (Fin 1)), Rotate (JNum (Fin 1)), Rotate (JNum (Fin 1))]
        (DrawingBoard nonNumeric (Fin 300, Fin 150) defaultOptions)) = JNum (Fin 150)"
proof -
  have a: "bgImgRotate (DrawingBoard nonNumeric (Fin 300, Fin 150) defaultOptions) = JNum (Fin 0)"
    by code_simp
  have b: "width (DrawingBoard nonNumeric (Fin 300, Fin 150) defaultOptions) = JNum (Fin 300)"
    by code_simp
  have c: "height (DrawingBoard nonNumeric (Fin 300, Fin 150) defaultOptions) = JNum (Fin 150)"
    by code_simp
  have tw: "truthy (width (DrawingBoard nonNumeric (Fin 300, Fin 150) defaultOptions))"
    "truthy (height (DrawingBoard nonNumeric (Fin 300, Fin 150) defaultOptions))"
    by (simp_all add: b c truthy_def)
  show ?thesis
    using rotate_four_times[of "JNum (Fin 1)"
        "DrawingBoard nonNumeric (Fin 300, Fin 150) defaultOptions" nonNumeric] a b c tw
    by simp
qed

section \<open>The invariants of the revoke stack\<close>

lemma js_ge_Fin [simp]: "js_ge (Fin a) (Fin b) = (b \<le> a)"
  by (auto simp add: js_ge_def js_le_def)

lemma length_shift: "length (shift xs) = length xs - 1"
  by (cases xs) (simp_all add: shift_def)

lemma ctxInv_cong: "revokeStack t = revokeStack s \<Longrightarrow> ctx t = ctx s \<Longrightarrow> ctxInv t = ctxInv s"
  by (simp add: ctxInv_def)

lemma boundInv_cong:
  "revokeStack t = revokeStack s \<Longrightarrow> MAX_REVOKE_STEPS t = MAX_REVOKE_STEPS s \<Longrightarrow>
   boundInv t = boundInv s"
  by (simp add: boundInv_def)

lemma p_saveImageData_stack:
  assumes "ty = JStr ''paint'' \<or> ty = JStr ''clear''"
  shows "revokeStack (p_saveImageData ty pc img s) =
           (if js_ge (Fin (of_nat (length (revokeStack s)))) (MAX_REVOKE_STEPS s)
            then shift (revokeStack s) else revokeStack s)
           @ [\<lparr>entry_type = ty, entry_paintCount = pc, entry_imageData = img\<rparr>]"
  using assms by (auto simp add: p_saveImageData_def Let_def arr_includes_def)


lemma p_saveImageData_boundInv:
  assumes "boundInv s"
  shows "boundInv (p_saveImageData ty pc img s)"
proof (cases "ty = JStr ''paint'' \<or> ty = JStr ''clear'' \<or> ty = JUndefined")
  case False
  then show ?thesis using assms by (simp add: p_saveImageData_def Let_def arr_includes_def)
next
  case True
  obtain m where m: "MAX_REVOKE_STEPS s = Fin m" "0 < m" "m \<le> 50"
    "rat_of_nat (length (revokeStack s)) < m + 1"
    using assms by (auto simp add: boundInv_def)
  define ty' where "ty' = (if ty = JUndefined then JStr ''paint'' else ty)"
  have ty': "ty' = JStr ''paint'' \<or> ty' = JStr ''clear''" using True by (auto simp add: ty'_def)
  have same: "p_saveImageData ty pc img s = p_saveImageData ty' pc img s"
    by (simp add: p_saveImageData_def ty'_def Let_def)
  have len: "rat_of_nat (length (revokeStack (p_saveImageData ty' pc img s))) < m + 1"
  proof (cases "m \<le> rat_of_nat (length (revokeStack s))")
    case True
    then have "0 < length (revokeStack s)" using m(2) by (cases "revokeStack s") auto
    then have "length (shift (revokeStack s)) + 1 = length (revokeStack s)"
      by (simp add: length_shift)
    then show ?thesis using True m by (simp add: p_saveImageData_stack[OF ty'])
  next
    case False
    then show ?thesis using m by (simp add: p_saveImageData_stack[OF ty'])
  qed
  show ?thesis
    unfolding same boundInv_def using m len by simp
qed

lemma p_revoke_stack:
  "revokeStack (p_revoke s) = (if ctx s = None then revokeStack s else butlast (revokeStack s))"
  by (simp add: p_revoke_def Let_def)


lemma p_revoke_boundInv: "boundInv s \<Longrightarrow> boundInv (p_revoke s)"
  by (auto simp add: boundInv_def p_revoke_stack)


lemma push_boundInv:
  assumes "boundInv s"
  shows "boundInv (snd (if ctx s = None then (None, s)
         else case getImageData tn w h b of
                Inl x \<Rightarrow> (Some x, s)
              | Inr imageData \<Rightarrow> (None, p_saveImageData ty pc imageData s)))"
  using assms by (auto simp add: p_saveImageData_boundInv split: sum.split)

lemma start_rest_fields:
  "revokeStack (snd (case ToNumber tn (penWidth t) of
             Inl x \<Rightarrow> (Some x, t)
           | Inr pw \<Rightarrow>
               andThen (p_drawCircle px py (js_div pw (Fin 2)) (penColor t) t)
                 (\<lambda>s3. (None,
                    p_bindCurModeEvents a3 (p_bindCurModeEvents a2 (p_bindCurModeEvents a1 s3)))))) =
     revokeStack t"
  "ctx (snd (case ToNumber tn (penWidth t) of
             Inl x \<Rightarrow> (Some x, t)
           | Inr pw \<Rightarrow>
               andThen (p_drawCircle px py (js_div pw (Fin 2)) (penColor t) t)
                 (\<lambda>s3. (None,
                    p_bindCurModeEvents a3 (p_bindCurModeEvents a2 (p_bindCurModeEvents a1 s3)))))) =
     ctx t"
  "MAX_REVOKE_STEPS (snd (case ToNumber tn (penWidth t) of
             Inl x \<Rightarrow> (Some x, t)
           | Inr pw \<Rightarrow>
               andThen (p_drawCircle px py (js_div pw (Fin 2)) (penColor t) t)
                 (\<lambda>s3. (None,
                    p_bindCurModeEvents a3 (p_bindCurModeEvents a2 (p_bindCurModeEvents a1 s3)))))) =
     MAX_REVOKE_STEPS t"
  by (simp_all add: snd_andThen split: sum.split)


lemma p_handlePointerStart_boundInv:
  "boundInv s \<Longrightarrow> boundInv (snd (p_handlePointerStart tn e s))"
proof -
  assume a: "boundInv s"
  define s1 where "s1 = s\<lparr>isPainting := True, lastPoint := Some (p_getPointOffset e)\<rparr>"
  have i1: "boundInv s1" using a by (simp add: boundInv_def s1_def)
  show ?thesis
    unfolding p_handlePointerStart_def Let_def s1_def[symmetric]
    by (rule andThen_preserves[where P = boundInv], rule push_boundInv[OF i1])
       (simp add: boundInv_def start_rest_fields)
qed

lemma p_handlePointerMove_fields [simp]:
  "revokeStack (snd (p_handlePointerMove tn e s)) = revokeStack s"
  "ctx (snd (p_handlePointerMove tn e s)) = ctx s"
  "MAX_REVOKE_STEPS (snd (p_handlePointerMove tn e s)) = MAX_REVOKE_STEPS s"
  by (simp_all add: p_handlePointerMove_def snd_andThen split: option.split prod.split)

lemma p_handlePointerEnd_fields [simp]:
  "revokeStack (p_handlePointerEnd s) = revokeStack s"
  "ctx (p_handlePointerEnd s) = ctx s"
  "MAX_REVOKE_STEPS (p_handlePointerEnd s) = MAX_REVOKE_STEPS s"
  by (simp_all add: p_handlePointerEnd_def Let_def)



lemma mount_boundInv: "boundInv s \<Longrightarrow> boundInv (snd (mount tn s))"
  by (simp add: boundInv_def)


lemma clear_fields:
  "ctx (snd (clear tn s)) = ctx s"
  "el (snd (clear tn s)) = el s"
  "MAX_REVOKE_STEPS (snd (clear tn s)) = MAX_REVOKE_STEPS s"
  "revokeStack (snd (clear tn s)) =
     (if ctx s = None \<or> el s = None then revokeStack s
      else case getImageData tn (width s) (height s) (surface s) of
             Inl e \<Rightarrow> revokeStack s
           | Inr d \<Rightarrow> revokeStack (p_saveImageData (JStr ''clear'') (paintCount s) d s))"
  by (simp_all add: clear_def Let_def split: sum.split option.split prod.split)


lemma clear_boundInv: "boundInv s \<Longrightarrow> boundInv (snd (clear tn s))"
proof -
  assume a: "boundInv s"
  have b: "boundInv (p_saveImageData (JStr ''clear'') (paintCount s) d s)" for d
    using a by (rule p_saveImageData_boundInv)
  show ?thesis
    using a b unfolding boundInv_def clear_fields by (auto split: sum.split)
qed

lemma rotate_rest_stack:
  "revokeStack (snd (rotate_rest tn t)) = [] \<or> revokeStack (snd (rotate_rest tn t)) = revokeStack t"
  by (simp add: rotate_rest_def snd_andThen split: option.split prod.split)

lemma rotate_board_frame [simp]:
  "ctx (snd (rotate_board tn d s)) = ctx s"
  "MAX_REVOKE_STEPS (snd (rotate_board tn d s)) = MAX_REVOKE_STEPS s"
  by (simp_all add: rotate_board_unfold snd_andThen split: sum.split)

lemma rotate_board_stack:
  "revokeStack (snd (rotate_board tn d s)) = []
   \<or> revokeStack (snd (rotate_board tn d s)) = revokeStack s"
proof -
  have "revokeStack (snd (rotate_rest tn t)) = [] \<or> revokeStack (snd (rotate_rest tn t)) = revokeStack s"
    if "revokeStack t = revokeStack s" for t
    using rotate_rest_stack[of tn t] that by simp
  then show ?thesis
    by (simp add: rotate_board_unfold snd_andThen split: sum.split)
qed


lemma rotate_board_boundInv: "boundInv s \<Longrightarrow> boundInv (snd (rotate_board tn d s))"
  using rotate_board_stack[of tn d s] by (auto simp add: boundInv_def)

text \<open>
  \<^verbatim>\<open>_init\<close> keeps the context. It empties the stack before it computes the
  maximum, so the bound holds wherever it throws; when it returns, the maximum is
  the one it has computed.
\<close>

lemma p_init_ctx [simp]: "ctx (snd (p_init tn rect opts s)) = ctx s"
  by (simp add: p_init_def Let_def snd_andThen split: sum.split)



lemma p_init_boundInv: "boundInv s \<Longrightarrow> boundInv (snd (p_init tn rect opts s))"
proof (cases "p_getLawfulMaxRevokeSteps tn (o_maxRevokeSteps opts)")
  case (Inl e)
  assume "boundInv s"
  then show ?thesis using Inl
    by (auto simp add: p_init_def Let_def snd_andThen boundInv_def)
next
  case (Inr m)
  assume a: "boundInv s"
  obtain q where q: "m = Fin q" "0 < q" "q \<le> 50" using maxRevokeSteps_range[OF Inr] by auto
  show ?thesis using a Inr q
    by (auto simp add: p_init_def Let_def snd_andThen boundInv_def)
qed

lemma p_init_returns_boundInv:
  assumes "fst (p_init tn rect opts s) = None"
  shows "boundInv (snd (p_init tn rect opts s))"
proof (cases "p_getLawfulMaxRevokeSteps tn (o_maxRevokeSteps opts)")
  case (Inl e)
  then show ?thesis using assms
    by (auto simp add: p_init_def Let_def fst_andThen split: if_splits)
next
  case (Inr m)
  obtain q where q: "m = Fin q" "0 < q" "q \<le> 50" using maxRevokeSteps_range[OF Inr] by auto
  show ?thesis using assms Inr q
    by (auto simp add: p_init_def Let_def snd_andThen fst_andThen boundInv_def split: if_splits)
qed


lemma step_boundInv: "boundInv s \<Longrightarrow> boundInv (snd (step tn x s))"
proof (cases x)
  case (PointerStart e)
  assume "boundInv s" then show ?thesis
    using PointerStart by (simp add: step_def p_handlePointerStart_boundInv)
next
  case Revoke
  assume "boundInv s" then show ?thesis
    using Revoke by (simp add: step_def revoke_def p_revoke_boundInv)
next
  case Clear
  assume "boundInv s" then show ?thesis using Clear by (simp add: step_def clear_boundInv)
next
  case (Rotate d)
  assume "boundInv s" then show ?thesis using Rotate by (simp add: step_def rotate_board_boundInv)
next
  case (ReInit rect given)
  assume "boundInv s" then show ?thesis using ReInit
    by (auto simp add: step_def reInit_def intro!: andThen_preserves[where P = boundInv]
        p_init_boundInv mount_boundInv)
qed (simp_all add: step_def boundInv_def p_handlePointerLeave_def p_handlePointerCancel_def)


lemma run_boundInv: "boundInv s \<Longrightarrow> boundInv (run tn xs s)"
  by (induction xs arbitrary: s) (simp_all add: step_boundInv)


lemma new_DrawingBoard_boundInv:
  assumes "new_DrawingBoard tn rect opts = (None, s0)"
  shows "boundInv s0"
proof -
  have f: "fst (p_init tn rect opts blank) = None"
    using assms by (auto simp add: new_DrawingBoard_def andThen_def split: option.splits)
  have i: "boundInv (snd (p_init tn rect opts blank))" using f by (rule p_init_returns_boundInv)
  have "s0 = snd (new_DrawingBoard tn rect opts)" using assms by simp
  then have "s0 = snd ((\<lambda>s. if \<not> truthy (manualMount s) then mount tn s else (None, s))
                         (snd (p_init tn rect opts blank)))"
    using f by (simp add: new_DrawingBoard_def snd_andThen)
  then show ?thesis using i by (simp add: mount_boundInv)
qed


lemma reachable_boundInv:
  "new_DrawingBoard tn rect opts = (None, s0) \<Longrightarrow> boundInv (run tn xs s0)"
  by (simp add: run_boundInv new_DrawingBoard_boundInv)

section \<open>Claim C1: revoke\<close>





section \<open>Claim C2: the bound of the revoke stack\<close>

text \<open>
  The stack is shortened when its length has reached \<^verbatim>\<open>MAX_REVOKE_STEPS\<close>, and the
  maximum may be a fraction (claim C6). With the option 2.5 the maximum is 2.5;
  the third push finds the length 2, which is below 2.5, and evicts nothing: the
  stack then has 3 entries.
\<close>

theorem revokeStack_fraction_counterexample:
  "MAX_REVOKE_STEPS
     (run nonNumeric (oneStroke @ oneStroke @ oneStroke)
        (DrawingBoard nonNumeric (Fin 300, Fin 150)
           (defaultOptions\<lparr>o_maxRevokeSteps := JNum (Fin (5 / 2))\<rparr>))) = Fin (5 / 2)
   \<and> length (revokeStack
        (run nonNumeric (oneStroke @ oneStroke @ oneStroke)
           (DrawingBoard nonNumeric (Fin 300, Fin 150)
              (defaultOptions\<lparr>o_maxRevokeSteps := JNum (Fin (5 / 2))\<rparr>)))) = 3
   \<and> \<not> js_le (Fin 3) (Fin (5 / 2))"
  by code_simp

text \<open>
  Claim C2, amended. In every state \<open>s\<close> of a board whose construction has
  returned, the effective maximum is a finite number \<open>m\<close> above 0 and at most 50,
  and the length of the revoke stack is between 0 and \<open>m\<close> rounded up to a whole
  number: between 0 and \<open>m\<close> when \<open>m\<close> is whole. A push onto a stack whose length
  has reached \<open>m\<close> evicts exactly the oldest entry, at index 0, and keeps the other
  entries in their order before the new one; a push onto a shorter stack evicts
  nothing.
\<close>

theorem revokeStack_bounded:
  assumes "new_DrawingBoard tn rect opts = (None, s0)"
    and "s = run tn xs s0"
    and "ty = JStr ''paint'' \<or> ty = JStr ''clear''"
  shows "\<exists>m. MAX_REVOKE_STEPS s = Fin m \<and> 0 < m \<and> m \<le> 50
           \<and> int (length (revokeStack s)) \<le> \<lceil>m\<rceil>
           \<and> (m \<in> \<int> \<longrightarrow> rat_of_nat (length (revokeStack s)) \<le> m)
           \<and> (m \<le> rat_of_nat (length (revokeStack s)) \<longrightarrow>
                revokeStack (p_saveImageData ty pc img s) =
                  tl (revokeStack s)
                  @ [\<lparr>entry_type = ty, entry_paintCount = pc, entry_imageData = img\<rparr>])
           \<and> (rat_of_nat (length (revokeStack s)) < m \<longrightarrow>
                revokeStack (p_saveImageData ty pc img s) =
                  revokeStack s
                  @ [\<lparr>entry_type = ty, entry_paintCount = pc, entry_imageData = img\<rparr>])"
proof -
  have "boundInv s" unfolding assms(2) using assms(1) by (rule reachable_boundInv)
  then obtain m where m: "MAX_REVOKE_STEPS s = Fin m" "0 < m" "m \<le> 50"
    "rat_of_nat (length (revokeStack s)) < m + 1"
    by (auto simp add: boundInv_def)
  have "rat_of_int (int (length (revokeStack s)) - 1) < m" using m(4) by simp
  also have "m \<le> rat_of_int \<lceil>m\<rceil>" by simp
  finally have "int (length (revokeStack s)) - 1 < \<lceil>m\<rceil>" by (simp only: of_int_less_iff)
  then have up: "int (length (revokeStack s)) \<le> \<lceil>m\<rceil>" by simp
  have whole: "m \<in> \<int> \<longrightarrow> rat_of_nat (length (revokeStack s)) \<le> m"
  proof
    assume "m \<in> \<int>"
    then obtain k :: int where k: "m = rat_of_int k" by (auto elim: Ints_cases)
    have "\<lceil>m\<rceil> = k" by (simp add: k)
    with up have "int (length (revokeStack s)) \<le> k" by simp
    then have "rat_of_int (int (length (revokeStack s))) \<le> rat_of_int k"
      by (simp only: of_int_le_iff)
    then show "rat_of_nat (length (revokeStack s)) \<le> m" by (simp add: k)
  qed
  have sh: "shift (revokeStack s) = tl (revokeStack s)"
    by (cases "revokeStack s") (simp_all add: shift_def)
  have push: "revokeStack (p_saveImageData ty pc img s) =
           (if m \<le> rat_of_nat (length (revokeStack s))
            then tl (revokeStack s) else revokeStack s)
           @ [\<lparr>entry_type = ty, entry_paintCount = pc, entry_imageData = img\<rparr>]"
    using p_saveImageData_stack[OF assms(3), of pc img s] m(1) sh by simp
  show ?thesis
    using m up whole push by (intro exI[of _ m]) auto
qed

lemma tightBoard_facts:
  "new_DrawingBoard nonNumeric (Fin 300, Fin 150)
     (defaultOptions\<lparr>o_maxRevokeSteps := JNum (Fin 2)\<rparr>) = (None, tightBoard)"
  "MAX_REVOKE_STEPS (run nonNumeric (oneStroke @ otherStroke) tightBoard) = Fin 2"
  "revokeStack (run nonNumeric (oneStroke @ otherStroke) tightBoard) =
     [\<lparr>entry_type = JStr ''paint'', entry_paintCount = 0,
       entry_imageData =
         \<lparr>id_width = 300, id_height = 150, id_content = Patch 300 150 Blank Blank\<rparr>\<rparr>,
      \<lparr>entry_type = JStr ''paint'', entry_paintCount = 1,
       entry_imageData =
         \<lparr>id_width = 300, id_height = 150,
          id_content =
            Patch 300 150
              (Drawn (StrokeLine (Fin 10) (Fin 10) (Fin 20) (Fin 20) (Fin 6) (JStr ''red'')) []
                 (Drawn (FillArc (Fin 10) (Fin 10) (Fin 3) (JStr ''red'')) [] Blank))
              Blank\<rparr>\<rparr>]"
  "MAX_REVOKE_STEPS (run nonNumeric oneStroke tightBoard) = Fin 2"
  "revokeStack (run nonNumeric oneStroke tightBoard) =
     [\<lparr>entry_type = JStr ''paint'', entry_paintCount = 0,
       entry_imageData =
         \<lparr>id_width = 300, id_height = 150, id_content = Patch 300 150 Blank Blank\<rparr>\<rparr>]"
  by code_simp+

text \<open>
  The theorem on the board with a maximum of two steps. After two strokes the
  stack is full, with two different entries: a push evicts the older one and puts
  the new entry after the other. After one stroke a push adds an entry after the
  one that is there.
\<close>

theorem revokeStack_bounded_witness:
  "new_DrawingBoard nonNumeric (Fin 300, Fin 150)
     (defaultOptions\<lparr>o_maxRevokeSteps := JNum (Fin 2)\<rparr>) = (None, tightBoard)
   \<and> MAX_REVOKE_STEPS (run nonNumeric (oneStroke @ otherStroke) tightBoard) = Fin 2
   \<and> (2::rat) \<in> \<int>
   \<and> rat_of_nat (length (revokeStack (run nonNumeric (oneStroke @ otherStroke) tightBoard))) \<le> 2
   \<and> (2::rat) \<le> rat_of_nat (length (revokeStack (run nonNumeric (oneStroke @ otherStroke) tightBoard)))
   \<and> revokeStack (p_saveImageData (JStr ''clear'') 2 onePixel
        (run nonNumeric (oneStroke @ otherStroke) tightBoard))
       = [\<lparr>entry_type = JStr ''paint'', entry_paintCount = 1,
           entry_imageData =
             \<lparr>id_width = 300, id_height = 150,
              id_content =
                Patch 300 150
                  (Drawn (StrokeLine (Fin 10) (Fin 10) (Fin 20) (Fin 20) (Fin 6) (JStr ''red'')) []
                     (Drawn (FillArc (Fin 10) (Fin 10) (Fin 3) (JStr ''red'')) [] Blank))
                  Blank\<rparr>\<rparr>,
          \<lparr>entry_type = JStr ''clear'', entry_paintCount = 2, entry_imageData = onePixel\<rparr>]
   \<and> rat_of_nat (length (revokeStack (run nonNumeric oneStroke tightBoard))) < 2
   \<and> revokeStack (p_saveImageData (JStr ''paint'') 1 onePixel (run nonNumeric oneStroke tightBoard))
       = [\<lparr>entry_type = JStr ''paint'', entry_paintCount = 0,
           entry_imageData =
             \<lparr>id_width = 300, id_height = 150, id_content = Patch 300 150 Blank Blank\<rparr>\<rparr>,
          \<lparr>entry_type = JStr ''paint'', entry_paintCount = 1, entry_imageData = onePixel\<rparr>]"
proof -
  note c = tightBoard_facts(1)
  have full: "revokeStack (p_saveImageData (JStr ''clear'') 2 onePixel
                 (run nonNumeric (oneStroke @ otherStroke) tightBoard))
       = [\<lparr>entry_type = JStr ''paint'', entry_paintCount = 1,
           entry_imageData =
             \<lparr>id_width = 300, id_height = 150,
              id_content =
                Patch 300 150
                  (Drawn (StrokeLine (Fin 10) (Fin 10) (Fin 20) (Fin 20) (Fin 6) (JStr ''red'')) []
                     (Drawn (FillArc (Fin 10) (Fin 10) (Fin 3) (JStr ''red'')) [] Blank))
                  Blank\<rparr>\<rparr>,
          \<lparr>entry_type = JStr ''clear'', entry_paintCount = 2, entry_imageData = onePixel\<rparr>]"
    using revokeStack_bounded[OF c refl, of "JStr ''clear''" "oneStroke @ otherStroke" 2 onePixel]
    by (auto simp add: tightBoard_facts)
  have room: "revokeStack (p_saveImageData (JStr ''paint'') 1 onePixel
                 (run nonNumeric oneStroke tightBoard))
       = [\<lparr>entry_type = JStr ''paint'', entry_paintCount = 0,
           entry_imageData =
             \<lparr>id_width = 300, id_height = 150, id_content = Patch 300 150 Blank Blank\<rparr>\<rparr>,
          \<lparr>entry_type = JStr ''paint'', entry_paintCount = 1, entry_imageData = onePixel\<rparr>]"
    using revokeStack_bounded[OF c refl, of "JStr ''paint''" oneStroke 1 onePixel]
    by (auto simp add: tightBoard_facts)
  show ?thesis using full room by (simp add: tightBoard_facts)
qed

section \<open>Claim C3: clear, then revoke\<close>

text \<open>
  \<^verbatim>\<open>clear()\<close> returns at once when the board has no context or no element, and
  \<^verbatim>\<open>revoke()\<close> only when it has no context. \<^verbatim>\<open>destory()\<close> removes the element and
  keeps the context. After a stroke and \<^verbatim>\<open>destory()\<close> the board has a context and
  the paint count 1; \<^verbatim>\<open>clear()\<close> does nothing, and \<^verbatim>\<open>revoke()\<close> undoes the stroke:
  the paint count is 0.
\<close>

theorem clear_after_destory_counterexample:
  "ctx (run nonNumeric (oneStroke @ [Destory]) exampleBoard) = Some 0
   \<and> el (run nonNumeric (oneStroke @ [Destory]) exampleBoard) = None
   \<and> paintCount (run nonNumeric (oneStroke @ [Destory]) exampleBoard) = 1
   \<and> paintCount (revoke (snd (clear nonNumeric
        (run nonNumeric (oneStroke @ [Destory]) exampleBoard)))) = 0"
  by code_simp

text \<open>
  \<^verbatim>\<open>clear()\<close> reads the bitmap with the stored dimensions, and \<^verbatim>\<open>setSize\<close> stores
  every truthy value. With the width \<^verbatim>\<open>Infinity\<close> the board has its context and
  its element, \<^verbatim>\<open>getImageData\<close> throws (a \<^verbatim>\<open>TypeError\<close> under the current
  standard, an \<^verbatim>\<open>IndexSizeError\<close> under the earlier one), \<^verbatim>\<open>clear()\<close> pushes
  nothing, and \<^verbatim>\<open>revoke()\<close> undoes the stroke.
\<close>

lemma clear_infinite_width_example:
  "ctx (run nonNumeric (oneStroke @ [SetSize (JNum PInf) (JNum (Fin 150))]) exampleBoard) = Some 0"
  "el (run nonNumeric (oneStroke @ [SetSize (JNum PInf) (JNum (Fin 150))]) exampleBoard) = Some 0"
  "width (run nonNumeric (oneStroke @ [SetSize (JNum PInf) (JNum (Fin 150))]) exampleBoard)
     = JNum PInf"
  "paintCount (run nonNumeric (oneStroke @ [SetSize (JNum PInf) (JNum (Fin 150))]) exampleBoard)
     = 1"
  "fst (clear nonNumeric
     (run nonNumeric (oneStroke @ [SetSize (JNum PInf) (JNum (Fin 150))]) exampleBoard))
     = Some TypeError"
  "paintCount (revoke (snd (clear nonNumeric
     (run nonNumeric (oneStroke @ [SetSize (JNum PInf) (JNum (Fin 150))]) exampleBoard)))) = 0"
  by code_simp+

lemma drawing_dims [simp]:
  "cv_width (drawn d b) = cv_width b" "cv_height (drawn d b) = cv_height b"
  "cv_width (unrestored cs b) = cv_width b" "cv_height (unrestored cs b) = cv_height b"
  by (simp_all add: drawn_def unrestored_def)

lemma p_drawBg_dims [simp]:
  "cv_width (surface (snd (p_drawBg tn i w h s))) = cv_width (surface s)"
  "cv_height (surface (snd (p_drawBg tn i w h s))) = cv_height (surface s)"
  by (simp_all add: p_drawBg_def Let_def split: sum.split option.split)

lemma clear_dims:
  "cv_width (surface (snd (clear tn s))) = cv_width (surface s)"
  "cv_height (surface (snd (clear tn s))) = cv_height (surface s)"
  by (simp_all add: clear_def Let_def split: sum.split option.split prod.split)

text \<open>
  Claim C3, amended. For every board state with a drawing context and a canvas
  element in which reading the bitmap with the stored dimensions returns the
  whole bitmap (see \<open>readsWholeSurface\<close>), \<^verbatim>\<open>clear()\<close> followed at once by
  \<^verbatim>\<open>revoke()\<close> leaves every pixel of the bitmap, its dimensions and the paint count
  as they were before \<^verbatim>\<open>clear()\<close>, whether or not \<^verbatim>\<open>clear()\<close> throws while it
  redraws the background.
\<close>

theorem clear_then_revoke_restores:
  assumes "ctx s \<noteq> None" and "el s \<noteq> None" and "readsWholeSurface tn s"
  shows "(\<forall>x < cv_width (surface s). \<forall>y < cv_height (surface s).
            shown (surface (revoke (snd (clear tn s)))) x y = shown (surface s) x y)
         \<and> cv_width (surface (revoke (snd (clear tn s)))) = cv_width (surface s)
         \<and> cv_height (surface (revoke (snd (clear tn s)))) = cv_height (surface s)
         \<and> paintCount (revoke (snd (clear tn s))) = paintCount s"
proof -
  obtain sw sh where wh: "longOf tn (width s) = Inr sw" "longOf tn (height s) = Inr sh"
    and pos: "0 < sw" "0 < sh"
    and cov: "int (cv_width (surface s)) \<le> sw" "int (cv_height (surface s)) \<le> sh"
    and ok: "origin_clean (surface s)" "allocates tn (nat \<bar>sw\<bar>) (nat \<bar>sh\<bar>)"
    using assms(3) by (auto simp add: readsWholeSurface_def split: sum.splits)
  define d where "d = \<lparr> id_width = nat \<bar>sw\<bar>, id_height = nat \<bar>sh\<bar>,
                        id_content = Patch (cv_width (surface s)) (cv_height (surface s))
                                       (cv_content (surface s)) Blank \<rparr>"
  have g: "getImageData tn (width s) (height s) (surface s) = Inr d"
    using wh pos ok by (simp add: getImageData_def d_def)
  define r where "r = snd (clear tn s)"
  have st: "revokeStack r =
         (if js_ge (Fin (of_nat (length (revokeStack s)))) (MAX_REVOKE_STEPS s)
          then shift (revokeStack s) else revokeStack s)
         @ [\<lparr>entry_type = JStr ''clear'', entry_paintCount = paintCount s,
              entry_imageData = d\<rparr>]"
  proof -
    obtain c1 e1 where ce: "ctx s = Some c1" "el s = Some e1" using assms(1,2) by auto
    show ?thesis using g by (simp add: r_def clear_fields p_saveImageData_stack ce)
  qed
  obtain c0 where c: "ctx r = Some c0"
    using assms(1) by (auto simp add: r_def clear_fields)
  have dims: "cv_width (surface r) = cv_width (surface s)"
    "cv_height (surface r) = cv_height (surface s)"
    by (simp_all add: r_def clear_dims)
  have rv: "surface (revoke r) = putImageData d (surface r)"
    "paintCount (revoke r) = paintCount s"
    by (simp_all add: revoke_def p_revoke_def Let_def c st)
  have px: "shown (surface (revoke r)) x y = shown (surface s) x y"
    if "x < cv_width (surface s)" "y < cv_height (surface s)" for x y
  proof -
    have "x < nat \<bar>sw\<bar>" "y < nat \<bar>sh\<bar>" using that cov by linarith+
    then show ?thesis using that by (simp add: rv shown_def putImageData_def d_def)
  qed
  show ?thesis
    using px dims rv by (simp add: r_def[symmetric] putImageData_def)
qed

lemma stroke_facts:
  "ctx (run nonNumeric oneStroke exampleBoard) = Some 0"
  "el (run nonNumeric oneStroke exampleBoard) = Some 0"
  "readsWholeSurface nonNumeric (run nonNumeric oneStroke exampleBoard)"
  "cv_width (surface (run nonNumeric oneStroke exampleBoard)) = 300"
  "cv_height (surface (run nonNumeric oneStroke exampleBoard)) = 150"
  "paintCount (run nonNumeric oneStroke exampleBoard) = 1"
  "shown (surface (run nonNumeric oneStroke exampleBoard)) 10 10 =
     Painted (StrokeLine (Fin 10) (Fin 10) (Fin 20) (Fin 20) (Fin 6) (JStr ''red'')) [] 10 10
       (Painted (FillArc (Fin 10) (Fin 10) (Fin 3) (JStr ''red'')) [] 10 10 Transparent)"
  by code_simp+

lemma background_facts:
  "ctx (run nonNumeric (withBackground @ oneStroke) exampleBoard) = Some 0"
  "el (run nonNumeric (withBackground @ oneStroke) exampleBoard) = Some 0"
  "readsWholeSurface nonNumeric (run nonNumeric (withBackground @ oneStroke) exampleBoard)"
  "cv_width (surface (run nonNumeric (withBackground @ oneStroke) exampleBoard)) = 300"
  "cv_height (surface (run nonNumeric (withBackground @ oneStroke) exampleBoard)) = 150"
  "paintCount (run nonNumeric (withBackground @ oneStroke) exampleBoard) = 1"
  "bgImgObject (run nonNumeric (withBackground @ oneStroke) exampleBoard) = JObj 7"
  "fst (clear nonNumeric (run nonNumeric (withBackground @ oneStroke) exampleBoard)) = None"
  "shown (surface (snd (clear nonNumeric
      (run nonNumeric (withBackground @ oneStroke) exampleBoard)))) 10 10 =
     Painted (DrawImage (JObj 7) (Fin 300) (Fin 150) (Fin (- 150)) (Fin (- 75)) (Fin 300)
                (Fin 150) (Fin 150) (Fin 75) (Fin 0)) [] 10 10
       (Painted (ClearRect (Fin 300) (Fin 150)) [] 10 10
          (Painted (StrokeLine (Fin 10) (Fin 10) (Fin 20) (Fin 20) (Fin 6) (JStr ''red'')) [] 10 10
             (Painted (FillArc (Fin 10) (Fin 10) (Fin 3) (JStr ''red'')) [] 10 10
                (Painted (DrawImage (JObj 7) (Fin 300) (Fin 150) (Fin (- 150)) (Fin (- 75))
                            (Fin 300) (Fin 150) (Fin 150) (Fin 75) (Fin 0)) [] 10 10
                   Transparent))))"
  "shown (surface (run nonNumeric (withBackground @ oneStroke) exampleBoard)) 10 10 =
     Painted (StrokeLine (Fin 10) (Fin 10) (Fin 20) (Fin 20) (Fin 6) (JStr ''red'')) [] 10 10
       (Painted (FillArc (Fin 10) (Fin 10) (Fin 3) (JStr ''red'')) [] 10 10
          (Painted (DrawImage (JObj 7) (Fin 300) (Fin 150) (Fin (- 150)) (Fin (- 75))
                      (Fin 300) (Fin 150) (Fin 150) (Fin 75) (Fin 0)) [] 10 10
             Transparent))"
  by code_simp+

text \<open>
  The theorem at the pixel (10, 10), after one stroke on the example board, and
  after one stroke on the example board with a background image, where
  \<^verbatim>\<open>clear()\<close> returns after it has cleared the bitmap and drawn the image again.
\<close>

theorem clear_then_revoke_restores_witness:
  "ctx (run nonNumeric oneStroke exampleBoard) \<noteq> None
   \<and> el (run nonNumeric oneStroke exampleBoard) \<noteq> None
   \<and> readsWholeSurface nonNumeric (run nonNumeric oneStroke exampleBoard)
   \<and> 10 < cv_width (surface (run nonNumeric oneStroke exampleBoard))
   \<and> 10 < cv_height (surface (run nonNumeric oneStroke exampleBoard))
   \<and> shown (surface (revoke (snd (clear nonNumeric (run nonNumeric oneStroke exampleBoard)))))
        10 10 =
       Painted (StrokeLine (Fin 10) (Fin 10) (Fin 20) (Fin 20) (Fin 6) (JStr ''red'')) [] 10 10
         (Painted (FillArc (Fin 10) (Fin 10) (Fin 3) (JStr ''red'')) [] 10 10 Transparent)
   \<and> paintCount (revoke (snd (clear nonNumeric (run nonNumeric oneStroke exampleBoard)))) = 1
   \<and> ctx (run nonNumeric (withBackground @ oneStroke) exampleBoard) \<noteq> None
   \<and> el (run nonNumeric (withBackground @ oneStroke) exampleBoard) \<noteq> None
   \<and> readsWholeSurface nonNumeric (run nonNumeric (withBackground @ oneStroke) exampleBoard)
   \<and> 10 < cv_width (surface (run nonNumeric (withBackground @ oneStroke) exampleBoard))
   \<and> 10 < cv_height (surface (run nonNumeric (withBackground @ oneStroke) exampleBoard))
   \<and> shown (surface (revoke (snd (clear nonNumeric
          (run nonNumeric (withBackground @ oneStroke) exampleBoard))))) 10 10 =
       Painted (StrokeLine (Fin 10) (Fin 10) (Fin 20) (Fin 20) (Fin 6) (JStr ''red'')) [] 10 10
         (Painted (FillArc (Fin 10) (Fin 10) (Fin 3) (JStr ''red'')) [] 10 10
            (Painted (DrawImage (JObj 7) (Fin 300) (Fin 150) (Fin (- 150)) (Fin (- 75))
                        (Fin 300) (Fin 150) (Fin 150) (Fin 75) (Fin 0)) [] 10 10
               Transparent))
   \<and> paintCount (revoke (snd (clear nonNumeric
          (run nonNumeric (withBackground @ oneStroke) exampleBoard)))) = 1"
  using clear_then_revoke_restores[of "run nonNumeric oneStroke exampleBoard" nonNumeric]
    clear_then_revoke_restores[of "run nonNumeric (withBackground @ oneStroke) exampleBoard"
      nonNumeric]
  by (simp add: stroke_facts background_facts(1-7,10))

section \<open>Claim C10: rotation and the callback of the revoke stack\<close>

text \<open>
  A valid \<^verbatim>\<open>rotate\<close> that returns has emptied the revoke stack and reset the paint
  count, and has called no callback.
\<close>

lemma rotate_board_returns:
  assumes "d = JNum (Fin 1) \<or> d = JNum (Fin (- 1))" and "fst (rotate_board tn d s) = None"
  shows "revokeStack (snd (rotate_board tn d s)) = []
         \<and> paintCount (snd (rotate_board tn d s)) = 0
         \<and> callbackLog (snd (rotate_board tn d s)) = callbackLog s"
proof -
  have inc: "arr_includes [JNum (Fin 1), JNum (Fin (- 1))] d"
    using assms(1) by (auto simp add: arr_includes_def)
  have nu: "d \<noteq> JUndefined" using assms(1) by auto
  have rest: "fst (rotate_rest tn t) = None \<Longrightarrow>
              revokeStack (snd (rotate_rest tn t)) = [] \<and> paintCount (snd (rotate_rest tn t)) = 0"
    for t
    by (auto simp add: rotate_rest_def fst_andThen snd_andThen
        split: option.splits prod.splits if_splits)
  show ?thesis
    using assms(2) inc nu rest
    by (auto simp add: rotate_board_unfold fst_andThen snd_andThen split: sum.splits if_splits)
qed

text \<open>
  On the example board with a background image \<^verbatim>\<open>this.originalSize\<close> is
  assigned: after one stroke, \<^verbatim>\<open>rotate(1)\<close> returns, the stack is empty and the
  callback has not been called again.
\<close>

lemma rotate_with_background_example:
  "length (revokeStack (run nonNumeric (withBackground @ oneStroke) exampleBoard)) = 1"
  "fst (rotate_board nonNumeric (JNum (Fin 1))
     (run nonNumeric (withBackground @ oneStroke) exampleBoard)) = None"
  "revokeStack (snd (rotate_board nonNumeric (JNum (Fin 1))
     (run nonNumeric (withBackground @ oneStroke) exampleBoard))) = []"
  "paintCount (snd (rotate_board nonNumeric (JNum (Fin 1))
     (run nonNumeric (withBackground @ oneStroke) exampleBoard))) = 0"
  "callbackLog (snd (rotate_board nonNumeric (JNum (Fin 1))
     (run nonNumeric (withBackground @ oneStroke) exampleBoard)))
     = callbackLog (run nonNumeric (withBackground @ oneStroke) exampleBoard)"
  by code_simp+

text \<open>
  With a callback that is a function, a push and a pop each call it once, with the
  stack they leave.
\<close>

lemma callback_on_push_and_pop:
  assumes "isFunction (onRevokeStackChange s)"
  shows "(ty = JStr ''paint'' \<or> ty = JStr ''clear'' \<longrightarrow>
           callbackLog (p_saveImageData ty pc img s) =
             callbackLog s @ [RevokeStackChange (revokeStack (p_saveImageData ty pc img s))])
         \<and> (ctx s \<noteq> None \<and> revokeStack s \<noteq> [] \<longrightarrow>
           callbackLog (p_revoke s) =
             callbackLog s @ [RevokeStackChange (revokeStack (p_revoke s))])"
  using assms by (auto simp add: p_saveImageData_def p_revoke_def Let_def arr_includes_def)

text \<open>
  Claim C10, evaluated on a board constructed with the default options and a
  callback, after one stroke. No background has been set, so
  \<^verbatim>\<open>this.originalSize\<close> is unassigned: \<^verbatim>\<open>rotate(1)\<close> throws a \<^verbatim>\<open>TypeError\<close> where
  it spreads the field, before the two assignments that reset the paint count and
  the revoke stack. The stack keeps its entry and the paint count stays 1.
\<close>

theorem rotate_without_background_evaluation:
  "originalSize (run nonNumeric oneStroke exampleBoard) = None
   \<and> length (revokeStack (run nonNumeric oneStroke exampleBoard)) = 1
   \<and> fst (rotate_board nonNumeric (JNum (Fin 1)) (run nonNumeric oneStroke exampleBoard))
       = Some TypeError
   \<and> revokeStack (snd (rotate_board nonNumeric (JNum (Fin 1))
        (run nonNumeric oneStroke exampleBoard)))
       = revokeStack (run nonNumeric oneStroke exampleBoard)
   \<and> paintCount (snd (rotate_board nonNumeric (JNum (Fin 1))
        (run nonNumeric oneStroke exampleBoard))) = 1"
  by code_simp

end
